theory Spec2Isabelle
  imports Complex_Main "HOL-Library.AList"
begin

section \<open>Python floats\<close>

text \<open>
  A Python \<^verbatim>\<open>float\<close>, and an element of a \<^verbatim>\<open>float64\<close> array, is an IEEE 754 double: a
  finite value, an infinity or NaN. The two zeros are one value here: they differ only as
  divisors, and the code divides by values above \<^verbatim>\<open>1e-8\<close> only.
\<close>

datatype fl = Fin real | PInf | NInf | NaN

text \<open>The finite doubles: \<open>m * 2^e\<close> with \<open>|m| < 2^53\<close> and \<open>-1074 \<le> e \<le> 971\<close>.\<close>

definition is_double :: "real \<Rightarrow> bool" where
  "is_double x \<longleftrightarrow>
     (\<exists>e \<in> {-1074 .. 971 :: int}. \<exists>m \<in> {- (2 ^ 53 - 1) .. 2 ^ 53 - 1 :: int}.
        x = of_int m * 2 powi e)"

text \<open>
  The result of an arithmetic operation on finite operands. IEEE 754 delivers the exact
  result where a double holds it; any other result is rounded, to a neighbouring double
  or to an infinity. How an inexact result is rounded is the argument \<open>rnd\<close> of every
  function that computes, and every theorem holds for each \<open>rnd\<close>.
\<close>

definition rounding :: "(real \<Rightarrow> fl) \<Rightarrow> real \<Rightarrow> fl" where
  "rounding rnd x = (if is_double x then Fin x else rnd x)"

fun fsub :: "(real \<Rightarrow> fl) \<Rightarrow> fl \<Rightarrow> fl \<Rightarrow> fl" where
  "fsub rnd (Fin x) (Fin y) = rounding rnd (x - y)"
| "fsub rnd NaN _ = NaN"
| "fsub rnd _ NaN = NaN"
| "fsub rnd PInf PInf = NaN"
| "fsub rnd NInf NInf = NaN"
| "fsub rnd PInf _ = PInf"
| "fsub rnd NInf _ = NInf"
| "fsub rnd _ PInf = NInf"
| "fsub rnd _ NInf = PInf"

fun fabs :: "fl \<Rightarrow> fl" where
  "fabs (Fin x) = Fin \<bar>x\<bar>"
| "fabs PInf = PInf"
| "fabs NInf = PInf"
| "fabs NaN = NaN"

fun fsign :: "fl \<Rightarrow> int" where
  "fsign (Fin x) = (if x < 0 then - 1 else if x = 0 then 0 else 1)"
| "fsign PInf = 1"
| "fsign NInf = - 1"
| "fsign NaN = 0"

fun fmul :: "(real \<Rightarrow> fl) \<Rightarrow> fl \<Rightarrow> fl \<Rightarrow> fl" where
  "fmul rnd (Fin x) (Fin y) = rounding rnd (x * y)"
| "fmul rnd NaN _ = NaN"
| "fmul rnd _ NaN = NaN"
| "fmul rnd a b =
     (if fsign a * fsign b = 0 then NaN
      else if fsign a * fsign b > 0 then PInf else NInf)"

text \<open>
  Division as numpy does it on \<^verbatim>\<open>float64\<close>: a zero divisor gives an infinity or NaN, not
  an exception. (A zero divisor is taken as \<open>+0\<close>; the code never has one.)
\<close>

fun fdiv :: "(real \<Rightarrow> fl) \<Rightarrow> fl \<Rightarrow> fl \<Rightarrow> fl" where
  "fdiv rnd (Fin x) (Fin y) =
     (if y \<noteq> 0 then rounding rnd (x / y)
      else if x = 0 then NaN else if x > 0 then PInf else NInf)"
| "fdiv rnd NaN _ = NaN"
| "fdiv rnd _ NaN = NaN"
| "fdiv rnd (Fin x) _ = Fin 0"
| "fdiv rnd PInf (Fin y) = (if y < 0 then NInf else PInf)"
| "fdiv rnd NInf (Fin y) = (if y < 0 then PInf else NInf)"
| "fdiv rnd _ _ = NaN"

text \<open>\<^verbatim>\<open>a < b\<close> and \<^verbatim>\<open>a <= b\<close> on doubles: false as soon as one side is NaN. \<^verbatim>\<open>a > b\<close> is
  \<open>flt b a\<close> and \<^verbatim>\<open>a >= b\<close> is \<open>fle b a\<close>.\<close>

fun flt :: "fl \<Rightarrow> fl \<Rightarrow> bool" where
  "flt (Fin x) (Fin y) \<longleftrightarrow> x < y"
| "flt NaN _ \<longleftrightarrow> False"
| "flt _ NaN \<longleftrightarrow> False"
| "flt NInf NInf \<longleftrightarrow> False"
| "flt NInf _ \<longleftrightarrow> True"
| "flt _ NInf \<longleftrightarrow> False"
| "flt PInf _ \<longleftrightarrow> False"
| "flt _ PInf \<longleftrightarrow> True"

fun fle :: "fl \<Rightarrow> fl \<Rightarrow> bool" where
  "fle (Fin x) (Fin y) \<longleftrightarrow> x \<le> y"
| "fle NaN _ \<longleftrightarrow> False"
| "fle _ NaN \<longleftrightarrow> False"
| "fle NInf _ \<longleftrightarrow> True"
| "fle _ PInf \<longleftrightarrow> True"
| "fle _ _ \<longleftrightarrow> False"

text \<open>The maximum of two doubles as \<^verbatim>\<open>ndarray.max\<close> takes it: NaN wins.\<close>

definition fmaximum :: "fl \<Rightarrow> fl \<Rightarrow> fl" where
  "fmaximum a b = (if a = NaN \<or> b = NaN then NaN else if flt a b then b else a)"

section \<open>Python values handled by the comparison utilities\<close>

text \<open>
  The utilities of \<^verbatim>\<open>serpentTools/utils.py\<close> receive arbitrary Python objects and
  branch on \<^verbatim>\<open>type(obj)\<close>. A value is a string, an \<^verbatim>\<open>int\<close>, a \<^verbatim>\<open>float\<close>, a
  \<^verbatim>\<open>numpy.ndarray\<close> of \<^verbatim>\<open>float64\<close>, a \<^verbatim>\<open>bool\<close>, \<^verbatim>\<open>None\<close>, or an instance of any other
  class (given by the name of the class). An array carries its shape and its elements in
  row-major order. Arrays of other element types are not covered.
\<close>

record ndarray =
  shape :: "nat list"
  elems :: "fl list"

datatype pytype = TStr | TInt | TFloat | TNdarray | TBool | TNoneType | TClass string

datatype pyval =
    PStr string
  | PInt int
  | PFloat fl
  | PArray ndarray
  | PBool bool
  | PNone
  | PObj string

text \<open>\<^verbatim>\<open>type(obj)\<close>: the concrete type, compared by identity (\<^verbatim>\<open>bool\<close> is not \<^verbatim>\<open>int\<close>).\<close>

fun type_of :: "pyval \<Rightarrow> pytype" where
  "type_of (PStr _) = TStr"
| "type_of (PInt _) = TInt"
| "type_of (PFloat _) = TFloat"
| "type_of (PArray _) = TNdarray"
| "type_of (PBool _) = TBool"
| "type_of PNone = TNoneType"
| "type_of (PObj c) = TClass c"


section \<open>Notifications and errors\<close>

text \<open>
  Each function of \<^verbatim>\<open>serpentTools.messages\<close> that the utilities call is one
  constructor, carrying the arguments of the call.
\<close>

datatype notice =
    Identical pyval pyval string
  | NotIdentical pyval pyval string
  | AcceptableLow pyval pyval string
  | AcceptableHigh pyval pyval string
  | OutsideTols pyval pyval string
  | DifferentTypes pytype pytype string

text \<open>
  The exceptions of \<^verbatim>\<open>directCompare\<close>. \<open>TypeError_unsupported\<close> is the
  \<^verbatim>\<open>TypeError\<close> raised at the end of the function; \<open>ValueError_zero_size\<close> is what
  \<^verbatim>\<open>ndarray.max\<close> raises on an array without elements. \<open>Outside_model\<close> stands for
  what numpy does with operands that are not followed here: arrays of different shapes
  (broadcasting, or its failure), arrays of dimension zero, and an \<^verbatim>\<open>int\<close> that does
  not fit 64 bits.
\<close>

datatype compare_error =
    TypeError_unsupported pytype
  | ValueError_zero_size
  | Outside_model

section \<open>\<^verbatim>\<open>directCompare\<close>\<close>

text \<open>\<^verbatim>\<open>LOWER_LIM_DIVISION = 1E-8\<close>: the double nearest to \<open>10^-8\<close>, which is
  \<open>3022314549036573 / 2^78\<close> and lies above \<open>10^-8\<close>.\<close>

definition LOWER_LIM_DIVISION :: fl where
  "LOWER_LIM_DIVISION = Fin (3022314549036573 / 2 ^ 78)"

definition COMPARE_NUMERICS :: "pytype list" where
  "COMPARE_NUMERICS = [TFloat, TInt]"

text \<open>
  A number operand in arithmetic with doubles: the value of an \<^verbatim>\<open>int\<close> as it is, for
  comparisons, which Python makes exactly, and converted to a double, for numpy's
  arithmetic.
\<close>

fun exact_value :: "pyval \<Rightarrow> fl" where
  "exact_value (PInt i) = Fin (of_int i)"
| "exact_value (PFloat f) = f"
| "exact_value _ = NaN"

fun to_float :: "(real \<Rightarrow> fl) \<Rightarrow> pyval \<Rightarrow> fl" where
  "to_float rnd (PInt i) = rounding rnd (of_int i)"
| "to_float rnd (PFloat f) = f"
| "to_float rnd _ = NaN"

definition int64 :: "int \<Rightarrow> bool" where
  "int64 i \<longleftrightarrow> - (2 ^ 63) \<le> i \<and> i < 2 ^ 63"

text \<open>The \<^verbatim>\<open>int\<close>s among the operands, and the difference of two \<^verbatim>\<open>int\<close>s, fit 64 bits.\<close>

fun ints_in_range :: "pyval \<Rightarrow> pyval \<Rightarrow> bool" where
  "ints_in_range (PInt i) (PInt j) \<longleftrightarrow> int64 i \<and> int64 j \<and> int64 (i - j)"
| "ints_in_range (PInt i) _ \<longleftrightarrow> int64 i"
| "ints_in_range _ (PInt j) \<longleftrightarrow> int64 j"
| "ints_in_range _ _ \<longleftrightarrow> True"

text \<open>
  \<^verbatim>\<open>fabs(obj0 - obj1)\<close> on two numbers: Python subtracts two \<^verbatim>\<open>int\<close>s exactly and numpy
  converts the result; otherwise an \<^verbatim>\<open>int\<close> is converted first and the doubles are
  subtracted.
\<close>

fun fabs_sub :: "(real \<Rightarrow> fl) \<Rightarrow> pyval \<Rightarrow> pyval \<Rightarrow> fl" where
  "fabs_sub rnd (PInt i) (PInt j) = fabs (rounding rnd (of_int (i - j)))"
| "fabs_sub rnd obj0 obj1 = fabs (fsub rnd (to_float rnd obj0) (to_float rnd obj1))"

text \<open>\<^verbatim>\<open>diff.max()\<close> on an array that has an element.\<close>

fun amax :: "fl list \<Rightarrow> fl" where
  "amax [] = NaN"
| "amax [x] = x"
| "amax (x # y # ys) = fmaximum x (amax (y # ys))"

text \<open>
  \<^verbatim>\<open>diff = fabs(obj0 - obj1) * 100\<close>, then \<^verbatim>\<open>diff[nonZI] /= obj0[nonZI]\<close> with
  \<^verbatim>\<open>nonZI = where(obj0 > LOWER_LIM_DIVISION)\<close>, element by element.
\<close>

definition array_diff :: "(real \<Rightarrow> fl) \<Rightarrow> fl list \<Rightarrow> fl list \<Rightarrow> fl list" where
  "array_diff rnd xs ys =
     map2 (\<lambda>x d. if flt LOWER_LIM_DIVISION x then fdiv rnd d x else d) xs
       (map2 (\<lambda>x y. fmul rnd (fabs (fsub rnd x y)) (Fin 100)) xs ys)"

text \<open>
  Lines 348 to 354: the reduced metric \<^verbatim>\<open>maxDiff\<close> of two operands that passed the
  type checks (two arrays, or two numbers).
\<close>

fun maxDiff :: "(real \<Rightarrow> fl) \<Rightarrow> pyval \<Rightarrow> pyval \<Rightarrow> compare_error + fl" where
  "maxDiff rnd (PArray a) (PArray b) =
     (if shape a \<noteq> shape b \<or> shape a = [] then Inl Outside_model
      else let diff = array_diff rnd (elems a) (elems b)
           in if diff = [] then Inl ValueError_zero_size else Inr (amax diff))"
| "maxDiff rnd obj0 obj1 =
     (if \<not> ints_in_range obj0 obj1 then Inl Outside_model
      else let diff = fmul rnd (fabs_sub rnd obj0 obj1) (Fin 100);
               diff = (if flt LOWER_LIM_DIVISION (exact_value obj0)
                       then fdiv rnd diff (to_float rnd obj0) else diff)
           in Inr diff)"

text \<open>The tolerances are doubles, as \<^verbatim>\<open>BaseObject.compare\<close> passes them.\<close>

definition directCompare ::
  "(real \<Rightarrow> fl) \<Rightarrow> pyval \<Rightarrow> pyval \<Rightarrow> fl \<Rightarrow> fl \<Rightarrow> string \<Rightarrow> compare_error + bool \<times> notice" where
  "directCompare rnd obj0 obj1 lower upper quantity =
     (let type0 = type_of obj0; type1 = type_of obj1 in
      if (type0 \<notin> set COMPARE_NUMERICS \<or> type1 \<notin> set COMPARE_NUMERICS) \<and> type0 \<noteq> type1
      then Inr (False, DifferentTypes type0 type1 quantity)
      else if type0 = TStr then
        (if obj0 \<noteq> obj1 then Inr (False, NotIdentical obj0 obj1 quantity)
         else Inr (True, Identical obj0 obj1 quantity))
      else if type0 \<in> set [TFloat, TInt, TNdarray] then
        (case maxDiff rnd obj0 obj1 of
           Inl e \<Rightarrow> Inl e
         | Inr m \<Rightarrow>
             if flt m LOWER_LIM_DIVISION then Inr (True, Identical obj0 obj1 quantity)
             else if fle m lower then Inr (True, AcceptableLow obj0 obj1 quantity)
             else if fle upper m then Inr (False, OutsideTols obj0 obj1 quantity)
             else Inr (True, AcceptableHigh obj0 obj1 quantity))
      else Inl (TypeError_unsupported type0))"

text \<open>
  The words of the specification for the numeric branch, to be compared with the code:
  the difference of one element relative to the reference value; the same for two
  numbers, in Python's arithmetic; the metric, which is the maximum over all elements
  for two arrays and the difference itself for two numbers; and the operands that the
  numeric branch is meant for: two numbers, or two arrays of the same shape that have a
  dimension and an element.
\<close>

definition spec_rel_diff :: "(real \<Rightarrow> fl) \<Rightarrow> fl \<Rightarrow> fl \<Rightarrow> fl" where
  "spec_rel_diff rnd a b =
     (let d = fmul rnd (fabs (fsub rnd a b)) (Fin 100)
      in if flt LOWER_LIM_DIVISION a then fdiv rnd d a else d)"

definition spec_scalar_diff :: "(real \<Rightarrow> fl) \<Rightarrow> pyval \<Rightarrow> pyval \<Rightarrow> fl" where
  "spec_scalar_diff rnd a b =
     (let d = fmul rnd (fabs_sub rnd a b) (Fin 100)
      in if flt LOWER_LIM_DIVISION (exact_value a) then fdiv rnd d (to_float rnd a) else d)"




text \<open>The one-dimensional array \<^verbatim>\<open>numpy.array(xs)\<close>.\<close>

abbreviation array1d :: "fl list \<Rightarrow> pyval" where
  "array1d xs \<equiv> PArray \<lparr>shape = [length xs], elems = xs\<rparr>"

text \<open>
  The types \<^verbatim>\<open>directCompare\<close> has a branch for, and the results that carry the
  \<^verbatim>\<open>differentTypes\<close> verdict.
\<close>

definition SUPPORTED_TYPES :: "pytype list" where
  "SUPPORTED_TYPES = [TStr, TInt, TFloat, TNdarray]"

fun is_DifferentTypes :: "compare_error + bool \<times> notice \<Rightarrow> bool" where
  "is_DifferentTypes (Inr (_, DifferentTypes _ _ _)) = True"
| "is_DifferentTypes _ = False"

section \<open>\<^verbatim>\<open>getCommonKeys\<close> and \<^verbatim>\<open>getKeyMatchingShapes\<close>\<close>

text \<open>
  The aggregated reports: one constructor for each of \<^verbatim>\<open>logMissingKeys\<close>,
  \<^verbatim>\<open>logBadTypes\<close> and \<^verbatim>\<open>logBadShapes\<close>, with the arguments of the call. The herald
  is \<open>None\<close> where the call leaves it to the default of the messages module.
\<close>

datatype ('k, 'h) report =
    LogMissingKeys string string "'k set" "'k set" "'h option"
  | LogBadTypes string string "('k \<times> pytype \<times> pytype) list"
  | LogBadShapes string string "('k \<times> nat list \<times> nat list) list"

text \<open>
  An argument of \<^verbatim>\<open>getCommonKeys\<close> is a \<^verbatim>\<open>dict\<close> (its items, in order) or any other
  iterable of keys.
\<close>

datatype ('k, 'v) keys_arg = Dict "('k \<times> 'v) list" | Keys "'k list"

definition getCommonKeys ::
  "('k, 'v) keys_arg \<Rightarrow> ('k, 'w) keys_arg \<Rightarrow> string \<Rightarrow> string \<Rightarrow> 'h
     \<Rightarrow> 'k set \<times> ('k, 'h) report list" where
  "getCommonKeys d0 d1 desc0 desc1 herald =
     (let k0 = (case d0 of Dict items \<Rightarrow> map fst items | Keys ks \<Rightarrow> ks);
          k1 = (case d1 of Dict items \<Rightarrow> map fst items | Keys ks \<Rightarrow> ks);
          s0 = set k0;
          s1 = set k1;
          common = s0 \<inter> s1;
          missing = (s0 - s1) \<union> (s1 - s0)
      in if missing \<noteq> {}
         then (common, [LogMissingKeys desc0 desc1 (s0 - s1) (s1 - s0) (Some herald)])
         else (common, []))"

text \<open>The key set of an argument in the words of the specification: the domain of a
  mapping, the members of a key collection.\<close>

fun spec_keys :: "('k, 'v) keys_arg \<Rightarrow> 'k set" where
  "spec_keys (Dict items) = dom (map_of items)"
| "spec_keys (Keys ks) = set ks"

text \<open>
  The four collections that the loop of \<^verbatim>\<open>getKeyMatchingShapes\<close> fills. Keys are
  strings; \<^verbatim>\<open>badTypes\<close> and \<^verbatim>\<open>badShapes\<close> are dictionaries in insertion order.
\<close>

record scan_state =
  missing0 :: "string set"
  missing1 :: "string set"
  badTypes :: "(string \<times> pytype \<times> pytype) list"
  badShapes :: "(string \<times> nat list \<times> nat list) list"
  goodKeys :: "string set"

definition scan_init :: scan_state where
  "scan_init = \<lparr>missing0 = {}, missing1 = {}, badTypes = [], badShapes = [], goodKeys = {}\<rparr>"

text \<open>\<^verbatim>\<open>v.shape\<close>, read only where \<^verbatim>\<open>type(v) is ndarray\<close>.\<close>

fun shape_of :: "pyval \<Rightarrow> nat list" where
  "shape_of (PArray a) = shape a"
| "shape_of _ = []"

text \<open>One pass of the loop body for \<^verbatim>\<open>key\<close>.\<close>

definition scan_key ::
  "(string \<rightharpoonup> pyval) \<Rightarrow> (string \<rightharpoonup> pyval) \<Rightarrow> string \<Rightarrow> scan_state \<Rightarrow> scan_state" where
  "scan_key map0 map1 key st =
     (case (map0 key, map1 key) of
        (Some v0, Some v1) \<Rightarrow>
          (let t0 = type_of v0; t1 = type_of v1 in
           if t0 \<noteq> t1 then st\<lparr>badTypes := AList.update key (t0, t1) (badTypes st)\<rparr>
           else if t0 = TNdarray \<and> shape_of v0 \<noteq> shape_of v1
             then st\<lparr>badShapes := AList.update key (shape_of v0, shape_of v1) (badShapes st)\<rparr>
           else st\<lparr>goodKeys := insert key (goodKeys st)\<rparr>)
      | _ \<Rightarrow>
          st\<lparr>missing0 := (if map0 key = None then insert key (missing0 st) else missing0 st),
             missing1 := (if map1 key = None then insert key (missing1 st) else missing1 st)\<rparr>)"

definition scan_keys ::
  "string list \<Rightarrow> (string \<rightharpoonup> pyval) \<Rightarrow> (string \<rightharpoonup> pyval) \<Rightarrow> scan_state" where
  "scan_keys keySet map0 map1 = fold (scan_key map0 map1) keySet scan_init"

text \<open>\<^verbatim>\<open>any(keys)\<close> on a set of strings: some key is not the empty string.\<close>

definition any_key :: "string set \<Rightarrow> bool" where
  "any_key ks \<longleftrightarrow> (\<exists>k \<in> ks. k \<noteq> [])"

definition getKeyMatchingShapes ::
  "string list \<Rightarrow> (string \<rightharpoonup> pyval) \<Rightarrow> (string \<rightharpoonup> pyval) \<Rightarrow> string \<Rightarrow> string
     \<Rightarrow> string set \<times> (string, 'h) report list" where
  "getKeyMatchingShapes keySet map0 map1 desc0 desc1 =
     (let st = scan_keys keySet map0 map1 in
      (goodKeys st,
       (if any_key (missing0 st) \<or> any_key (missing1 st)
        then [LogMissingKeys desc0 desc1 (missing0 st) (missing1 st) None] else []) @
       (if badTypes st \<noteq> [] then [LogBadTypes desc0 desc1 (badTypes st)] else []) @
       (if badShapes st \<noteq> [] then [LogBadShapes desc0 desc1 (badShapes st)] else [])))"

text \<open>The keys that the specification accepts.\<close>

definition spec_accepts :: "(string \<rightharpoonup> pyval) \<Rightarrow> (string \<rightharpoonup> pyval) \<Rightarrow> string \<Rightarrow> bool" where
  "spec_accepts map0 map1 k =
     (case (map0 k, map1 k) of
        (Some v0, Some v1) \<Rightarrow>
          type_of v0 = type_of v1 \<and>
          (case (v0, v1) of (PArray a, PArray b) \<Rightarrow> shape a = shape b | _ \<Rightarrow> True)
      | _ \<Rightarrow> False)"

text \<open>
  What the specification wants recorded for a key that both maps have: both types
  where the types differ, both shapes where two arrays differ in shape.
\<close>

definition type_clash :: "(string \<rightharpoonup> pyval) \<Rightarrow> (string \<rightharpoonup> pyval) \<Rightarrow> string \<Rightarrow> (pytype \<times> pytype) option" where
  "type_clash map0 map1 k =
     (case (map0 k, map1 k) of
        (Some v0, Some v1) \<Rightarrow>
          if type_of v0 \<noteq> type_of v1 then Some (type_of v0, type_of v1) else None
      | _ \<Rightarrow> None)"

definition shape_clash :: "(string \<rightharpoonup> pyval) \<Rightarrow> (string \<rightharpoonup> pyval) \<Rightarrow> string \<Rightarrow> (nat list \<times> nat list) option" where
  "shape_clash map0 map1 k =
     (case (map0 k, map1 k) of
        (Some (PArray a), Some (PArray b)) \<Rightarrow>
          if shape a \<noteq> shape b then Some (shape a, shape b) else None
      | _ \<Rightarrow> None)"

section \<open>\<^verbatim>\<open>BaseObject.compare\<close>\<close>

text \<open>
  A class has an identity, its \<^verbatim>\<open>__name__\<close> and the classes it inherits from, directly
  or not; an object knows its class. \<^verbatim>\<open>issubclass\<close> and \<^verbatim>\<open>isinstance\<close> follow: a class
  is a subclass of itself and of every class it inherits from.
\<close>

record pyclass =
  class_id :: nat
  class_name :: string
  superclasses :: "nat list"

record pyobj =
  obj_class :: pyclass

definition issubclass :: "pyclass \<Rightarrow> pyclass \<Rightarrow> bool" where
  "issubclass c d \<longleftrightarrow> class_id c = class_id d \<or> class_id d \<in> set (superclasses c)"

definition isinstance :: "pyobj \<Rightarrow> pyclass \<Rightarrow> bool" where
  "isinstance obj d \<longleftrightarrow> issubclass (obj_class obj) d"

text \<open>The tolerances and sigma are numbers: an \<^verbatim>\<open>int\<close> or a \<^verbatim>\<open>float\<close>.\<close>

datatype pynum = NInt int | NFloat fl

text \<open>
  The exceptions that leave \<^verbatim>\<open>compare\<close>: the two \<^verbatim>\<open>ValueError\<close>s of the validation with
  the arguments of their format strings; what \<^verbatim>\<open>int(sigma)\<close> raises for NaN (a
  \<^verbatim>\<open>ValueError\<close>) and for an infinity (an \<^verbatim>\<open>OverflowError\<close>); what \<^verbatim>\<open>float\<close> raises for
  an \<^verbatim>\<open>int\<close> beyond the doubles; the \<^verbatim>\<open>TypeError\<close> of \<^verbatim>\<open>_checkCompareObj\<close> with the
  two class names; and whatever \<^verbatim>\<open>self._compare\<close> raises, which passes through
  unchanged.
\<close>

datatype py_exception =
    ValueError_upper_lower fl fl
  | ValueError_negative string pynum
  | ValueError_nan_to_int
  | OverflowError_inf_to_int
  | OverflowError_int_to_float
  | TypeError_compare string string
  | NotImplementedError
  | Other_exception string

text \<open>The numbers that the message of an exception shows.\<close>

fun message_numbers :: "py_exception \<Rightarrow> pynum list" where
  "message_numbers (ValueError_upper_lower u l) = [NFloat u, NFloat l]"
| "message_numbers (ValueError_negative key item) = [item]"
| "message_numbers _ = []"

text \<open>
  The state outside the call: \<^verbatim>\<open>rc['verbosity']\<close> and the messages logged so far. The
  preamble of \<^verbatim>\<open>_compareLogPreMsg\<close> is one \<^verbatim>\<open>info\<close> message with both objects, the
  tolerances, sigma and the confidence that goes with it.
\<close>

datatype confidence = Percent nat | AtLeast997

datatype log_entry =
    Info_compare pyobj pyobj fl fl int confidence
  | Logged string

record world =
  rc_verbosity :: string
  logged :: "log_entry list"

type_synonym compare_method =
  "pyobj \<Rightarrow> pyobj \<Rightarrow> fl \<Rightarrow> fl \<Rightarrow> int \<Rightarrow> world \<Rightarrow> (py_exception + bool) \<times> world"

text \<open>\<^verbatim>\<open>float(x)\<close>: a float as it is, an \<^verbatim>\<open>int\<close> converted, with an \<^verbatim>\<open>OverflowError\<close>
  where no finite double results.\<close>

fun py_float :: "(real \<Rightarrow> fl) \<Rightarrow> pynum \<Rightarrow> py_exception + fl" where
  "py_float rnd (NFloat f) = Inr f"
| "py_float rnd (NInt i) =
     (case rounding rnd (of_int i) of
        Fin x \<Rightarrow> Inr (Fin x)
      | _ \<Rightarrow> Inl OverflowError_int_to_float)"

text \<open>\<^verbatim>\<open>int(x)\<close>: an \<^verbatim>\<open>int\<close> as it is, a finite float truncated towards zero.\<close>

fun py_int :: "pynum \<Rightarrow> py_exception + int" where
  "py_int (NInt i) = Inr i"
| "py_int (NFloat (Fin x)) = Inr (if 0 \<le> x then \<lfloor>x\<rfloor> else \<lceil>x\<rceil>)"
| "py_int (NFloat NaN) = Inl ValueError_nan_to_int"
| "py_int (NFloat _) = Inl OverflowError_inf_to_int"

text \<open>\<^verbatim>\<open>item < 0\<close>.\<close>

fun negative :: "pynum \<Rightarrow> bool" where
  "negative (NInt i) \<longleftrightarrow> i < 0"
| "negative (NFloat f) \<longleftrightarrow> flt f (Fin 0)"

text \<open>The loop over \<^verbatim>\<open>zip((upper, lower, sigma), ('upper', 'lower', 'sigma'))\<close>: the first
  negative item raises.\<close>

fun check_non_negative :: "(pynum \<times> string) list \<Rightarrow> py_exception option" where
  "check_non_negative [] = None"
| "check_non_negative ((item, key) # rest) =
     (if negative item then Some (ValueError_negative key item) else check_non_negative rest)"

definition checkCompareObj :: "pyobj \<Rightarrow> pyobj \<Rightarrow> py_exception + unit" where
  "checkCompareObj self other =
     (if \<not> (isinstance other (obj_class self) \<or> issubclass (obj_class other) (obj_class self))
      then Inl (TypeError_compare (class_name (obj_class other)) (class_name (obj_class self)))
      else Inr ())"

definition compareLogPreMsg :: "pyobj \<Rightarrow> pyobj \<Rightarrow> fl \<Rightarrow> fl \<Rightarrow> int \<Rightarrow> world \<Rightarrow> world" where
  "compareLogPreMsg self other lower upper sigma w =
     (let conf = (if sigma \<noteq> 0
                  then (if sigma = 1 then Percent 68 else if sigma = 2 then Percent 95
                        else AtLeast997)
                  else Percent 0)
      in w\<lparr>logged := logged w @ [Info_compare self other lower upper sigma conf]\<rparr>)"

text \<open>\<^verbatim>\<open>BaseObject._compare\<close> itself: \<^verbatim>\<open>raise NotImplementedError\<close>.\<close>

definition BaseObject_compare :: compare_method where
  "BaseObject_compare self other lower upper sigma w = (Inl NotImplementedError, w)"

text \<open>
  \<^verbatim>\<open>BaseObject.compare\<close>, in two parts. Lines 82 to 96, after the validation: the class
  check, the verbosity override, the preamble, \<^verbatim>\<open>self._compare\<close> and the restore. The
  method \<^verbatim>\<open>self._compare\<close> of the class of \<^verbatim>\<open>self\<close> is the first argument; \<open>verbosity\<close> is
  \<open>None\<close> for Python's \<^verbatim>\<open>None\<close>. An exception leaves the function at once, with the
  state as it is then.
\<close>

definition compare_after_validation ::
  "compare_method \<Rightarrow> pyobj \<Rightarrow> pyobj \<Rightarrow> fl \<Rightarrow> fl \<Rightarrow> int \<Rightarrow> string option \<Rightarrow> world
     \<Rightarrow> (py_exception + bool) \<times> world" where
  "compare_after_validation self_compare self other lower upper sigma verbosity w =
     (case checkCompareObj self other of
        Inl e \<Rightarrow> (Inl e, w)
      | Inr _ \<Rightarrow>
         (let previousVerb = (case verbosity of None \<Rightarrow> None
                              | Some v \<Rightarrow> Some (rc_verbosity w));
              w1 = (case verbosity of None \<Rightarrow> w | Some v \<Rightarrow> w\<lparr>rc_verbosity := v\<rparr>);
              w2 = compareLogPreMsg self other lower upper sigma w1
          in case self_compare self other lower upper sigma w2 of
               (Inl e, w3) \<Rightarrow> (Inl e, w3)
             | (Inr areSimilar, w3) \<Rightarrow>
                 (Inr areSimilar,
                  (case previousVerb of None \<Rightarrow> w3
                   | Some p \<Rightarrow> w3\<lparr>rc_verbosity := p\<rparr>))))"

text \<open>Lines 69 to 81: the conversions and the validation of the tolerances, then the
  rest.\<close>

definition compare ::
  "(real \<Rightarrow> fl) \<Rightarrow> compare_method \<Rightarrow> pyobj \<Rightarrow> pyobj \<Rightarrow> pynum \<Rightarrow> pynum \<Rightarrow> pynum
     \<Rightarrow> string option \<Rightarrow> world \<Rightarrow> (py_exception + bool) \<times> world" where
  "compare rnd self_compare self other lower0 upper0 sigma0 verbosity w =
     (case py_float rnd upper0 of
        Inl e \<Rightarrow> (Inl e, w)
      | Inr upper \<Rightarrow>
     (case py_float rnd lower0 of
        Inl e \<Rightarrow> (Inl e, w)
      | Inr lower \<Rightarrow>
     (case py_int sigma0 of
        Inl e \<Rightarrow> (Inl e, w)
      | Inr s \<Rightarrow>
         (let sigma = max 0 s in
          if flt upper lower then (Inl (ValueError_upper_lower upper lower), w)
          else
            (case check_non_negative
                    [(NFloat upper, ''upper''), (NFloat lower, ''lower''), (NInt sigma, ''sigma'')] of
               Some e \<Rightarrow> (Inl e, w)
             | None \<Rightarrow>
                 compare_after_validation self_compare self other lower upper sigma
                   verbosity w)))))"

text \<open>
  The classes \<^verbatim>\<open>BaseObject(object)\<close> and \<^verbatim>\<open>NamedObject(BaseObject)\<close> of
  \<^verbatim>\<open>objects/base.py\<close>, with \<^verbatim>\<open>object\<close> as class 0, and a state in which the verbosity
  is \<^verbatim>\<open>'warning'\<close> and nothing is logged yet.
\<close>

definition BaseObject_class :: pyclass where
  "BaseObject_class = \<lparr>class_id = 1, class_name = ''BaseObject'', superclasses = [0]\<rparr>"

definition NamedObject_class :: pyclass where
  "NamedObject_class = \<lparr>class_id = 2, class_name = ''NamedObject'', superclasses = [1, 0]\<rparr>"

definition world0 :: world where
  "world0 = \<lparr>rc_verbosity = ''warning'', logged = []\<rparr>"

section \<open>Properties of \<^verbatim>\<open>directCompare\<close>\<close>

subsection \<open>Doubles\<close>

lemma is_double_of_int: "\<bar>i\<bar> < 2 ^ 53 \<Longrightarrow> is_double (of_int i)"
  unfolding is_double_def by (intro bexI [of _ 0] bexI [of _ i]) auto

lemma rounding_of_int: "\<bar>i\<bar> < 2 ^ 53 \<Longrightarrow> rounding rnd (of_int i) = Fin (of_int i)"
  by (simp add: rounding_def is_double_of_int)

lemma rounding_numeral:
  "(numeral n :: int) < 2 ^ 53 \<Longrightarrow> rounding rnd (numeral n) = Fin (numeral n)"
  "(numeral n :: int) < 2 ^ 53 \<Longrightarrow> rounding rnd (- numeral n) = Fin (- numeral n)"
  "rounding rnd 0 = Fin 0"
  "rounding rnd 1 = Fin 1"
  using rounding_of_int [of "numeral n" rnd] rounding_of_int [of "- numeral n" rnd]
    rounding_of_int [of 0 rnd] rounding_of_int [of 1 rnd]
  by simp_all


lemma fle_NaN: "fle a b \<Longrightarrow> a \<noteq> NaN \<and> b \<noteq> NaN"
  by (cases a; cases b) simp_all











subsection \<open>The numeric branch\<close>









lemma spec_scalar_diff_floats:
  "spec_scalar_diff rnd (PFloat a) (PFloat b) = spec_rel_diff rnd a b"
  by (simp add: spec_scalar_diff_def spec_rel_diff_def Let_def)






subsection \<open>The type checks\<close>

lemma maxDiff_not_DifferentTypes:
  "\<not> is_DifferentTypes
      (case maxDiff rnd obj0 obj1 of
           Inl e \<Rightarrow> Inl e
         | Inr m \<Rightarrow>
             if flt m LOWER_LIM_DIVISION then Inr (True, Identical obj0 obj1 quantity)
             else if fle m lower then Inr (True, AcceptableLow obj0 obj1 quantity)
             else if fle upper m then Inr (False, OutsideTols obj0 obj1 quantity)
             else Inr (True, AcceptableHigh obj0 obj1 quantity))"
  by (cases "maxDiff rnd obj0 obj1") simp_all

lemma directCompare_differ:
  "(type_of obj0 \<notin> set COMPARE_NUMERICS \<or> type_of obj1 \<notin> set COMPARE_NUMERICS)
     \<and> type_of obj0 \<noteq> type_of obj1 \<Longrightarrow>
   directCompare rnd obj0 obj1 lower upper q
     = Inr (False, DifferentTypes (type_of obj0) (type_of obj1) q)"
  by (simp add: directCompare_def)

lemma directCompare_not_differ:
  "\<not> ((type_of obj0 \<notin> set COMPARE_NUMERICS \<or> type_of obj1 \<notin> set COMPARE_NUMERICS)
     \<and> type_of obj0 \<noteq> type_of obj1) \<Longrightarrow>
   \<not> is_DifferentTypes (directCompare rnd obj0 obj1 lower upper q)"
  unfolding directCompare_def Let_def
  using maxDiff_not_DifferentTypes [where rnd = rnd and ?obj0.0 = obj0 and ?obj1.0 = obj1
      and quantity = q and lower = lower and upper = upper]
  by (simp del: maxDiff.simps)

text \<open>
  C2, as amended. \<^verbatim>\<open>directCompare\<close> gives the DifferentTypes verdict, and then returns
  False at once, if and only if at least one of the two values is not an \<^verbatim>\<open>int\<close> or a
  \<^verbatim>\<open>float\<close> and their concrete types differ. An \<^verbatim>\<open>int\<close> and a \<^verbatim>\<open>float\<close> never give
  DifferentTypes; a string or an array against a value of any other type always does.
\<close>

theorem directCompare_DifferentTypes:
  "(is_DifferentTypes (directCompare rnd obj0 obj1 lower upper q)
      \<longleftrightarrow> (type_of obj0 \<notin> set COMPARE_NUMERICS \<or> type_of obj1 \<notin> set COMPARE_NUMERICS)
            \<and> type_of obj0 \<noteq> type_of obj1)
   \<and> (is_DifferentTypes (directCompare rnd obj0 obj1 lower upper q) \<longrightarrow>
        directCompare rnd obj0 obj1 lower upper q
          = Inr (False, DifferentTypes (type_of obj0) (type_of obj1) q))
   \<and> (type_of obj0 \<in> {TInt, TFloat} \<and> type_of obj1 \<in> {TInt, TFloat} \<longrightarrow>
        \<not> is_DifferentTypes (directCompare rnd obj0 obj1 lower upper q))
   \<and> ((type_of obj0 \<in> {TStr, TNdarray} \<or> type_of obj1 \<in> {TStr, TNdarray})
        \<and> type_of obj0 \<noteq> type_of obj1 \<longrightarrow>
        is_DifferentTypes (directCompare rnd obj0 obj1 lower upper q))"
proof -
  let ?c = "(type_of obj0 \<notin> set COMPARE_NUMERICS \<or> type_of obj1 \<notin> set COMPARE_NUMERICS)
            \<and> type_of obj0 \<noteq> type_of obj1"
  have iff: "is_DifferentTypes (directCompare rnd obj0 obj1 lower upper q) \<longleftrightarrow> ?c"
    using directCompare_differ [of obj0 obj1 rnd lower upper q]
      directCompare_not_differ [of obj0 obj1 rnd lower upper q]
    by (cases ?c) simp_all
  have eq: "is_DifferentTypes (directCompare rnd obj0 obj1 lower upper q) \<longrightarrow>
        directCompare rnd obj0 obj1 lower upper q
          = Inr (False, DifferentTypes (type_of obj0) (type_of obj1) q)"
    using iff directCompare_differ [of obj0 obj1 rnd lower upper q] by blast
  have num: "type_of obj0 \<in> {TInt, TFloat} \<and> type_of obj1 \<in> {TInt, TFloat} \<longrightarrow>
        \<not> is_DifferentTypes (directCompare rnd obj0 obj1 lower upper q)"
    unfolding iff by (auto simp: COMPARE_NUMERICS_def)
  have exact: "(type_of obj0 \<in> {TStr, TNdarray} \<or> type_of obj1 \<in> {TStr, TNdarray})
        \<and> type_of obj0 \<noteq> type_of obj1 \<longrightarrow>
        is_DifferentTypes (directCompare rnd obj0 obj1 lower upper q)"
    unfolding iff by (auto simp: COMPARE_NUMERICS_def)
  from iff eq num exact show ?thesis by blast
qed

text \<open>
  The theorem at a string against an array (DifferentTypes) and at an \<^verbatim>\<open>int\<close> against a
  \<^verbatim>\<open>float\<close> (no DifferentTypes).
\<close>

theorem directCompare_DifferentTypes_witness:
  "\<forall>rnd. is_DifferentTypes (directCompare rnd (PStr ''a'') (array1d [Fin 1]) (Fin 0) (Fin 10) ''name'')
   \<and> directCompare rnd (PStr ''a'') (array1d [Fin 1]) (Fin 0) (Fin 10) ''name''
       = Inr (False, DifferentTypes TStr TNdarray ''name'')
   \<and> type_of (PInt 1) \<in> {TInt, TFloat} \<and> type_of (PFloat (Fin 1)) \<in> {TInt, TFloat}
   \<and> \<not> is_DifferentTypes (directCompare rnd (PInt 1) (PFloat (Fin 1)) (Fin 0) (Fin 10) ''name'')"
proof
  fix rnd
  show "is_DifferentTypes (directCompare rnd (PStr ''a'') (array1d [Fin 1]) (Fin 0) (Fin 10) ''name'')
     \<and> directCompare rnd (PStr ''a'') (array1d [Fin 1]) (Fin 0) (Fin 10) ''name''
         = Inr (False, DifferentTypes TStr TNdarray ''name'')
     \<and> type_of (PInt 1) \<in> {TInt, TFloat} \<and> type_of (PFloat (Fin 1)) \<in> {TInt, TFloat}
     \<and> \<not> is_DifferentTypes (directCompare rnd (PInt 1) (PFloat (Fin 1)) (Fin 0) (Fin 10) ''name'')"
  proof -
    have a: "(type_of (PStr ''a'') \<in> {TStr, TNdarray} \<or> type_of (array1d [Fin 1]) \<in> {TStr, TNdarray})
          \<and> type_of (PStr ''a'') \<noteq> type_of (array1d [Fin 1])"
      by simp
    have b: "type_of (PInt 1) \<in> {TInt, TFloat} \<and> type_of (PFloat (Fin 1)) \<in> {TInt, TFloat}"
      by simp
    from a directCompare_DifferentTypes [of rnd "PStr ''a''" "array1d [Fin 1]" "Fin 0" "Fin 10" "''name''"]
    have 1: "is_DifferentTypes (directCompare rnd (PStr ''a'') (array1d [Fin 1]) (Fin 0) (Fin 10) ''name'')"
      by blast
    with directCompare_DifferentTypes [of rnd "PStr ''a''" "array1d [Fin 1]" "Fin 0" "Fin 10" "''name''"]
    have 2: "directCompare rnd (PStr ''a'') (array1d [Fin 1]) (Fin 0) (Fin 10) ''name''
         = Inr (False, DifferentTypes TStr TNdarray ''name'')"
      by simp
    from b directCompare_DifferentTypes [of rnd "PInt 1" "PFloat (Fin 1)" "Fin 0" "Fin 10" "''name''"]
    have 3: "\<not> is_DifferentTypes (directCompare rnd (PInt 1) (PFloat (Fin 1)) (Fin 0) (Fin 10) ''name'')"
      by blast
    from 1 2 3 b show ?thesis by blast
  qed
qed

text \<open>
  C2 as stated asks that neither value be numeric. An \<^verbatim>\<open>int\<close> against a string gives
  DifferentTypes although one of the two values is numeric.
\<close>

theorem directCompare_DifferentTypes_counterexample:
  "\<forall>rnd. directCompare rnd (PInt 1) (PStr ''a'') (Fin 0) (Fin 10) ''name''
     = Inr (False, DifferentTypes TInt TStr ''name'')
   \<and> \<not> (type_of (PInt 1) \<notin> set COMPARE_NUMERICS \<and> type_of (PStr ''a'') \<notin> set COMPARE_NUMERICS
        \<and> type_of (PInt 1) \<noteq> type_of (PStr ''a''))"
  by (simp add: directCompare_def COMPARE_NUMERICS_def)

lemma maxDiff_no_TypeError:
  "(case maxDiff rnd obj0 obj1 of
           Inl e \<Rightarrow> Inl e
         | Inr m \<Rightarrow>
             if flt m LOWER_LIM_DIVISION then Inr (True, Identical obj0 obj1 quantity)
             else if fle m lower then Inr (True, AcceptableLow obj0 obj1 quantity)
             else if fle upper m then Inr (False, OutsideTols obj0 obj1 quantity)
             else Inr (True, AcceptableHigh obj0 obj1 quantity)) \<noteq> Inl (TypeError_unsupported t)"
  by (cases obj0; cases obj1) (simp_all add: Let_def)

lemma directCompare_same_unsupported:
  assumes "type_of obj0 = type_of obj1" "type_of obj0 \<notin> set SUPPORTED_TYPES"
  shows "directCompare rnd obj0 obj1 lower upper q = Inl (TypeError_unsupported (type_of obj0))"
  using assms by (simp add: directCompare_def SUPPORTED_TYPES_def)

lemma directCompare_TypeError_iff:
  "(\<exists>t. directCompare rnd obj0 obj1 lower upper q = Inl (TypeError_unsupported t))
     \<longleftrightarrow> type_of obj0 = type_of obj1 \<and> type_of obj0 \<notin> set SUPPORTED_TYPES"
proof
  assume "\<exists>t. directCompare rnd obj0 obj1 lower upper q = Inl (TypeError_unsupported t)"
  then obtain t where t: "directCompare rnd obj0 obj1 lower upper q = Inl (TypeError_unsupported t)"
    by blast
  show "type_of obj0 = type_of obj1 \<and> type_of obj0 \<notin> set SUPPORTED_TYPES"
  proof (rule ccontr)
    assume n: "\<not> (type_of obj0 = type_of obj1 \<and> type_of obj0 \<notin> set SUPPORTED_TYPES)"
    show False
    proof (cases "(type_of obj0 \<notin> set COMPARE_NUMERICS \<or> type_of obj1 \<notin> set COMPARE_NUMERICS)
            \<and> type_of obj0 \<noteq> type_of obj1")
      case True
      from directCompare_differ [OF True, of rnd lower upper q] t show False by simp
    next
      case False
      with n have "type_of obj0 \<in> set SUPPORTED_TYPES"
        by (auto simp: COMPARE_NUMERICS_def SUPPORTED_TYPES_def)
      then consider "type_of obj0 = TStr" | "type_of obj0 \<in> set [TFloat, TInt, TNdarray]" "type_of obj0 \<noteq> TStr"
        by (auto simp: SUPPORTED_TYPES_def)
      then show False
      proof cases
        case 1
        with False t show False
          by (simp add: directCompare_def Let_def split: if_splits)
      next
        case 2
        with False have "directCompare rnd obj0 obj1 lower upper q =
          (case maxDiff rnd obj0 obj1 of
             Inl e \<Rightarrow> Inl e
           | Inr m \<Rightarrow>
             if flt m LOWER_LIM_DIVISION then Inr (True, Identical obj0 obj1 q)
             else if fle m lower then Inr (True, AcceptableLow obj0 obj1 q)
             else if fle upper m then Inr (False, OutsideTols obj0 obj1 q)
             else Inr (True, AcceptableHigh obj0 obj1 q))"
          unfolding directCompare_def Let_def by (auto simp del: maxDiff.simps)
        with t maxDiff_no_TypeError [where rnd = rnd and ?obj0.0 = obj0 and ?obj1.0 = obj1
          and quantity = q and lower = lower and upper = upper and t = t] show False
          by simp
      qed
    qed
  qed
next
  assume "type_of obj0 = type_of obj1 \<and> type_of obj0 \<notin> set SUPPORTED_TYPES"
  then show "\<exists>t. directCompare rnd obj0 obj1 lower upper q = Inl (TypeError_unsupported t)"
    using directCompare_same_unsupported by blast
qed

text \<open>
  C5, as amended. When a value has a type outside \<^verbatim>\<open>str\<close>, \<^verbatim>\<open>int\<close>, \<^verbatim>\<open>float\<close> and
  \<^verbatim>\<open>ndarray\<close>, \<^verbatim>\<open>directCompare\<close> raises the \<^verbatim>\<open>TypeError\<close> for unsupported types if
  both values have the same type, and returns False with the DifferentTypes verdict if
  their types differ. The \<^verbatim>\<open>TypeError\<close> is raised exactly when both values have the
  same type and that type is outside the four.
\<close>

theorem directCompare_unsupported:
  "(type_of obj0 \<notin> set SUPPORTED_TYPES \<or> type_of obj1 \<notin> set SUPPORTED_TYPES \<longrightarrow>
      directCompare rnd obj0 obj1 lower upper q
        = (if type_of obj0 = type_of obj1 then Inl (TypeError_unsupported (type_of obj0))
           else Inr (False, DifferentTypes (type_of obj0) (type_of obj1) q)))
   \<and> ((\<exists>t. directCompare rnd obj0 obj1 lower upper q = Inl (TypeError_unsupported t))
        \<longleftrightarrow> type_of obj0 = type_of obj1 \<and> type_of obj0 \<notin> set SUPPORTED_TYPES)"
proof (intro conjI impI)
  assume u: "type_of obj0 \<notin> set SUPPORTED_TYPES \<or> type_of obj1 \<notin> set SUPPORTED_TYPES"
  show "directCompare rnd obj0 obj1 lower upper q
        = (if type_of obj0 = type_of obj1 then Inl (TypeError_unsupported (type_of obj0))
           else Inr (False, DifferentTypes (type_of obj0) (type_of obj1) q))"
  proof (cases "type_of obj0 = type_of obj1")
    case True
    with u have "type_of obj0 \<notin> set SUPPORTED_TYPES" by auto
    with True show ?thesis
      by (simp add: directCompare_same_unsupported)
  next
    case False
    with u have "(type_of obj0 \<notin> set COMPARE_NUMERICS \<or> type_of obj1 \<notin> set COMPARE_NUMERICS)
            \<and> type_of obj0 \<noteq> type_of obj1"
      by (auto simp: COMPARE_NUMERICS_def SUPPORTED_TYPES_def)
    from directCompare_differ [OF this] False show ?thesis by simp
  qed
next
  show "(\<exists>t. directCompare rnd obj0 obj1 lower upper q = Inl (TypeError_unsupported t))
        \<longleftrightarrow> type_of obj0 = type_of obj1 \<and> type_of obj0 \<notin> set SUPPORTED_TYPES"
    by (rule directCompare_TypeError_iff)
qed

text \<open>
  The theorem at two values of the class \<^verbatim>\<open>float64\<close> (the \<^verbatim>\<open>TypeError\<close>) and at an
  \<^verbatim>\<open>int\<close> against a \<^verbatim>\<open>bool\<close> (DifferentTypes).
\<close>

theorem directCompare_unsupported_witness:
  "\<forall>rnd. type_of (PObj ''float64'') \<notin> set SUPPORTED_TYPES
   \<and> directCompare rnd (PObj ''float64'') (PObj ''float64'') (Fin 0) (Fin 10) ''name''
        = Inl (TypeError_unsupported (TClass ''float64''))
   \<and> type_of (PBool True) \<notin> set SUPPORTED_TYPES
   \<and> directCompare rnd (PInt 1) (PBool True) (Fin 0) (Fin 10) ''name''
        = Inr (False, DifferentTypes TInt TBool ''name'')"
proof
  fix rnd
  show "type_of (PObj ''float64'') \<notin> set SUPPORTED_TYPES
     \<and> directCompare rnd (PObj ''float64'') (PObj ''float64'') (Fin 0) (Fin 10) ''name''
          = Inl (TypeError_unsupported (TClass ''float64''))
     \<and> type_of (PBool True) \<notin> set SUPPORTED_TYPES
     \<and> directCompare rnd (PInt 1) (PBool True) (Fin 0) (Fin 10) ''name''
          = Inr (False, DifferentTypes TInt TBool ''name'')"
  proof -
    have a: "type_of (PObj ''float64'') \<notin> set SUPPORTED_TYPES"
      by (simp add: SUPPORTED_TYPES_def)
    have b: "type_of (PBool True) \<notin> set SUPPORTED_TYPES"
      by (simp add: SUPPORTED_TYPES_def)
    from a directCompare_unsupported
        [of "PObj ''float64''" "PObj ''float64''" rnd "Fin 0" "Fin 10" "''name''"]
    have 1: "directCompare rnd (PObj ''float64'') (PObj ''float64'') (Fin 0) (Fin 10) ''name''
          = Inl (TypeError_unsupported (TClass ''float64''))"
      by simp
    from b directCompare_unsupported [of "PInt 1" "PBool True" rnd "Fin 0" "Fin 10" "''name''"]
    have 2: "directCompare rnd (PInt 1) (PBool True) (Fin 0) (Fin 10) ''name''
          = Inr (False, DifferentTypes TInt TBool ''name'')"
      by simp
    from a b 1 2 show ?thesis by blast
  qed
qed

text \<open>
  C5 as stated promises the \<^verbatim>\<open>TypeError\<close> for every value of an unsupported type.
  \<^verbatim>\<open>None\<close> against a string returns False with the DifferentTypes verdict.
\<close>

theorem directCompare_unsupported_counterexample:
  "\<forall>rnd. type_of PNone \<notin> set SUPPORTED_TYPES
   \<and> directCompare rnd PNone (PStr ''a'') (Fin 0) (Fin 10) ''name''
       = Inr (False, DifferentTypes TNoneType TStr ''name'')"
  by (simp add: directCompare_def COMPARE_NUMERICS_def SUPPORTED_TYPES_def)

text \<open>
  C10. Two \<^verbatim>\<open>bool\<close> values are not numeric for \<^verbatim>\<open>directCompare\<close>: the membership test
  against \<^verbatim>\<open>(float, int)\<close> compares types exactly, so the call ends in the
  \<^verbatim>\<open>TypeError\<close> for unsupported types, whatever the tolerances and the label are.
\<close>

theorem directCompare_bool_raises:
  "directCompare rnd (PBool a) (PBool b) lower upper quantity = Inl (TypeError_unsupported TBool)"
  by (simp add: directCompare_def COMPARE_NUMERICS_def)

text \<open>The theorem at \<^verbatim>\<open>directCompare(True, True, 0, 10, 'flag')\<close>.\<close>

theorem directCompare_bool_raises_witness:
  "\<forall>rnd. directCompare rnd (PBool True) (PBool True) (Fin 0) (Fin 10) ''flag'' = Inl (TypeError_unsupported TBool)"
  by (rule allI) (rule directCompare_bool_raises)

section \<open>Properties of the key reconciliation\<close>

lemma spec_keys_set:
  "spec_keys d = set (case d of Dict items \<Rightarrow> map fst items | Keys ks \<Rightarrow> ks)"
  by (cases d) (simp_all add: dom_map_of_conv_image_fst)

lemma getCommonKeys_eq:
  "getCommonKeys d0 d1 desc0 desc1 herald =
     (spec_keys d0 \<inter> spec_keys d1,
      if (spec_keys d0 - spec_keys d1) \<union> (spec_keys d1 - spec_keys d0) \<noteq> {}
      then [LogMissingKeys desc0 desc1 (spec_keys d0 - spec_keys d1)
              (spec_keys d1 - spec_keys d0) (Some herald)]
      else [])"
  unfolding getCommonKeys_def Let_def spec_keys_set by simp

text \<open>
  C6. \<^verbatim>\<open>getCommonKeys\<close> returns the intersection of the two key sets, whatever they are,
  and has no failing path; it calls \<^verbatim>\<open>logMissingKeys\<close> once, with the keys that each
  side lacks, if the symmetric difference of the key sets is not empty, and not at all
  otherwise. For \<open>{a: 1, b: 2}\<close> and \<open>{b: 3, c: 4}\<close> the result is \<open>{b}\<close> with one
  notification that names \<open>a\<close> and \<open>c\<close>.
\<close>

theorem getCommonKeys_intersection:
  "fst (getCommonKeys d0 d1 desc0 desc1 herald) = spec_keys d0 \<inter> spec_keys d1
   \<and> snd (getCommonKeys d0 d1 desc0 desc1 herald) =
       (if (spec_keys d0 - spec_keys d1) \<union> (spec_keys d1 - spec_keys d0) \<noteq> {}
        then [LogMissingKeys desc0 desc1 (spec_keys d0 - spec_keys d1)
                (spec_keys d1 - spec_keys d0) (Some herald)]
        else [])
   \<and> (length (snd (getCommonKeys d0 d1 desc0 desc1 herald)) = 1
        \<longleftrightarrow> (spec_keys d0 - spec_keys d1) \<union> (spec_keys d1 - spec_keys d0) \<noteq> {})
   \<and> getCommonKeys (Dict [(''a'', 1::int), (''b'', 2)]) (Dict [(''b'', 3::int), (''c'', 4)])
        ''first'' ''second'' herald
       = ({''b''}, [LogMissingKeys ''first'' ''second'' {''a''} {''c''} (Some herald)])"
proof (intro conjI)
  show "getCommonKeys (Dict [(''a'', 1::int), (''b'', 2)]) (Dict [(''b'', 3::int), (''c'', 4)])
        ''first'' ''second'' herald
       = ({''b''}, [LogMissingKeys ''first'' ''second'' {''a''} {''c''} (Some herald)])"
    by (auto simp: getCommonKeys_def Let_def)
qed (simp_all add: getCommonKeys_eq)


text \<open>The theorem at two key collections: one common key, one notification.\<close>

theorem getCommonKeys_intersection_witness:
  "fst (getCommonKeys (Keys [''a'', ''b''] :: (string, int) keys_arg) (Keys [''b'', ''c''] :: (string, int) keys_arg) ''first'' ''second'' ()) = {''b''}
   \<and> length (snd (getCommonKeys (Keys [''a'', ''b''] :: (string, int) keys_arg) (Keys [''b'', ''c''] :: (string, int) keys_arg)
        ''first'' ''second'' ())) = 1"
proof -
  let ?r = "getCommonKeys (Keys [''a'', ''b''] :: (string, int) keys_arg) (Keys [''b'', ''c''] :: (string, int) keys_arg) ''first'' ''second'' ()"
  have i: "spec_keys (Keys [''a'', ''b''] :: (string, int) keys_arg) \<inter> spec_keys (Keys [''b'', ''c''] :: (string, int) keys_arg) = {''b''}"
    by auto
  have d: "(spec_keys (Keys [''a'', ''b''] :: (string, int) keys_arg) - spec_keys (Keys [''b'', ''c''] :: (string, int) keys_arg))
      \<union> (spec_keys (Keys [''b'', ''c''] :: (string, int) keys_arg) - spec_keys (Keys [''a'', ''b''] :: (string, int) keys_arg)) \<noteq> {}"
    by auto
  note t = getCommonKeys_intersection
    [of "Keys [''a'', ''b''] :: (string, int) keys_arg"
       "Keys [''b'', ''c''] :: (string, int) keys_arg" "''first''" "''second''" "()"]
  from t have "fst ?r = spec_keys (Keys [''a'', ''b''] :: (string, int) keys_arg) \<inter> spec_keys (Keys [''b'', ''c''] :: (string, int) keys_arg)"
    by (rule conjunct1)
  with i have 1: "fst ?r = {''b''}"
    by simp
  from t have "length (snd ?r) = 1
      \<longleftrightarrow> (spec_keys (Keys [''a'', ''b''] :: (string, int) keys_arg) - spec_keys (Keys [''b'', ''c''] :: (string, int) keys_arg))
      \<union> (spec_keys (Keys [''b'', ''c''] :: (string, int) keys_arg) - spec_keys (Keys [''a'', ''b''] :: (string, int) keys_arg)) \<noteq> {}"
    by (elim conjE)
  with d have 2: "length (snd ?r) = 1"
    by blast
  from 1 2 show ?thesis by (rule conjI)
qed

lemma type_of_ndarray: "type_of v = TNdarray \<longleftrightarrow> (\<exists>a. v = PArray a)"
  by (cases v) simp_all

lemma same_shape_iff:
  assumes "type_of v0 = type_of v1"
  shows "(case (v0, v1) of (PArray a, PArray b) \<Rightarrow> shape a = shape b | _ \<Rightarrow> True)
     \<longleftrightarrow> \<not> (type_of v0 = TNdarray \<and> shape_of v0 \<noteq> shape_of v1)"
proof (cases "type_of v0 = TNdarray")
  case True
  with assms obtain a b where "v0 = PArray a" "v1 = PArray b"
    by (metis type_of_ndarray)
  then show ?thesis by simp
next
  case False
  then have "\<forall>a. v0 \<noteq> PArray a"
    by (simp add: type_of_ndarray)
  then have "(case (v0, v1) of (PArray a, PArray b) \<Rightarrow> shape a = shape b | _ \<Rightarrow> True)"
    by (cases v0) simp_all
  with False show ?thesis by simp
qed

lemma spec_accepts_present:
  assumes "map0 k = Some v0" "map1 k = Some v1"
  shows "spec_accepts map0 map1 k \<longleftrightarrow>
     type_of v0 = type_of v1 \<and> \<not> (type_of v0 = TNdarray \<and> shape_of v0 \<noteq> shape_of v1)"
proof -
  have "spec_accepts map0 map1 k \<longleftrightarrow>
     type_of v0 = type_of v1 \<and>
     (case (v0, v1) of (PArray a, PArray b) \<Rightarrow> shape a = shape b | _ \<Rightarrow> True)"
    unfolding spec_accepts_def using assms by simp
  also have "\<dots> \<longleftrightarrow>
     type_of v0 = type_of v1 \<and> \<not> (type_of v0 = TNdarray \<and> shape_of v0 \<noteq> shape_of v1)"
    using same_shape_iff [of v0 v1] by blast
  finally show ?thesis .
qed

lemma spec_accepts_absent:
  "map0 k = None \<or> map1 k = None \<Longrightarrow> \<not> spec_accepts map0 map1 k"
  by (cases "map0 k"; cases "map1 k") (simp_all add: spec_accepts_def)

lemma type_clash_present:
  "map0 k = Some v0 \<Longrightarrow> map1 k = Some v1 \<Longrightarrow>
   type_clash map0 map1 k =
     (if type_of v0 \<noteq> type_of v1 then Some (type_of v0, type_of v1) else None)"
  by (simp add: type_clash_def)

lemma type_clash_absent:
  "map0 k = None \<or> map1 k = None \<Longrightarrow> type_clash map0 map1 k = None"
  by (cases "map0 k"; cases "map1 k") (simp_all add: type_clash_def)

lemma shape_clash_present:
  assumes "map0 k = Some v0" "map1 k = Some v1"
  shows "shape_clash map0 map1 k =
     (if type_of v0 = type_of v1 \<and> type_of v0 = TNdarray \<and> shape_of v0 \<noteq> shape_of v1
      then Some (shape_of v0, shape_of v1) else None)"
proof (cases "type_of v0 = TNdarray \<and> type_of v1 = TNdarray")
  case True
  then obtain a b where "v0 = PArray a" "v1 = PArray b"
    by (metis type_of_ndarray)
  with assms show ?thesis
    by (simp add: shape_clash_def)
next
  case False
  then have "(\<forall>a. v0 \<noteq> PArray a) \<or> (\<forall>b. v1 \<noteq> PArray b)"
    by (simp add: type_of_ndarray)
  then have "shape_clash map0 map1 k = None"
    using assms by (cases v0; cases v1) (simp_all add: shape_clash_def)
  with False show ?thesis by auto
qed

lemma shape_clash_absent:
  "map0 k = None \<or> map1 k = None \<Longrightarrow> shape_clash map0 map1 k = None"
  by (cases "map0 k"; cases "map1 k") (auto simp: shape_clash_def split: pyval.splits)

lemma scan_key_absent:
  "map0 k = None \<or> map1 k = None \<Longrightarrow>
   scan_key map0 map1 k st =
     st\<lparr>missing0 := (if map0 k = None then insert k (missing0 st) else missing0 st),
        missing1 := (if map1 k = None then insert k (missing1 st) else missing1 st)\<rparr>"
  by (cases "map0 k"; cases "map1 k") (simp_all add: scan_key_def)

lemma scan_key_present:
  "map0 k = Some v0 \<Longrightarrow> map1 k = Some v1 \<Longrightarrow>
   scan_key map0 map1 k st =
     (if type_of v0 \<noteq> type_of v1
      then st\<lparr>badTypes := AList.update k (type_of v0, type_of v1) (badTypes st)\<rparr>
      else if type_of v0 = TNdarray \<and> shape_of v0 \<noteq> shape_of v1
        then st\<lparr>badShapes := AList.update k (shape_of v0, shape_of v1) (badShapes st)\<rparr>
      else st\<lparr>goodKeys := insert k (goodKeys st)\<rparr>)"
  by (simp add: scan_key_def Let_def)

lemma scan_key_goodKeys:
  "goodKeys (scan_key map0 map1 k st) =
     (if spec_accepts map0 map1 k then insert k (goodKeys st) else goodKeys st)"
proof (cases "map0 k = None \<or> map1 k = None")
  case True
  then have "\<not> spec_accepts map0 map1 k"
    by (rule spec_accepts_absent)
  with True show ?thesis
    by (simp add: scan_key_absent)
next
  case False
  then obtain v0 v1 where v: "map0 k = Some v0" "map1 k = Some v1" by auto
  then show ?thesis
    by (simp add: scan_key_present spec_accepts_present)
qed

lemma scan_key_missing0:
  "missing0 (scan_key map0 map1 k st) =
     (if map0 k = None then insert k (missing0 st) else missing0 st)"
proof (cases "map0 k = None \<or> map1 k = None")
  case True
  then show ?thesis
    by (simp add: scan_key_absent)
next
  case False
  then obtain v0 v1 where v: "map0 k = Some v0" "map1 k = Some v1" by auto
  then show ?thesis
    by (simp add: scan_key_present)
qed

lemma scan_key_missing1:
  "missing1 (scan_key map0 map1 k st) =
     (if map1 k = None then insert k (missing1 st) else missing1 st)"
proof (cases "map0 k = None \<or> map1 k = None")
  case True
  then show ?thesis
    by (simp add: scan_key_absent)
next
  case False
  then obtain v0 v1 where v: "map0 k = Some v0" "map1 k = Some v1" by auto
  then show ?thesis
    by (simp add: scan_key_present)
qed

lemma scan_key_badTypes:
  "map_of (badTypes (scan_key map0 map1 k st)) =
     (case type_clash map0 map1 k of None \<Rightarrow> map_of (badTypes st)
      | Some ts \<Rightarrow> (map_of (badTypes st))(k \<mapsto> ts))"
proof (cases "map0 k = None \<or> map1 k = None")
  case True
  then have "type_clash map0 map1 k = None"
    by (rule type_clash_absent)
  with True show ?thesis
    by (simp add: scan_key_absent)
next
  case False
  then obtain v0 v1 where v: "map0 k = Some v0" "map1 k = Some v1" by auto
  then show ?thesis
    by (simp add: scan_key_present type_clash_present update_conv')
qed

lemma scan_key_badShapes:
  "map_of (badShapes (scan_key map0 map1 k st)) =
     (case shape_clash map0 map1 k of None \<Rightarrow> map_of (badShapes st)
      | Some ss \<Rightarrow> (map_of (badShapes st))(k \<mapsto> ss))"
proof (cases "map0 k = None \<or> map1 k = None")
  case True
  then have "shape_clash map0 map1 k = None"
    by (rule shape_clash_absent)
  with True show ?thesis
    by (simp add: scan_key_absent)
next
  case False
  then obtain v0 v1 where v: "map0 k = Some v0" "map1 k = Some v1" by auto
  then show ?thesis
    by (simp add: scan_key_present shape_clash_present update_conv')
qed

lemma fold_goodKeys:
  "goodKeys (fold (scan_key map0 map1) ks st) = goodKeys st \<union> {k \<in> set ks. spec_accepts map0 map1 k}"
  by (induction ks arbitrary: st) (auto simp: scan_key_goodKeys)

lemma fold_missing0:
  "missing0 (fold (scan_key map0 map1) ks st) = missing0 st \<union> {k \<in> set ks. map0 k = None}"
  by (induction ks arbitrary: st) (auto simp: scan_key_missing0)

lemma fold_missing1:
  "missing1 (fold (scan_key map0 map1) ks st) = missing1 st \<union> {k \<in> set ks. map1 k = None}"
  by (induction ks arbitrary: st) (auto simp: scan_key_missing1)

lemma fold_badTypes:
  "map_of (badTypes (fold (scan_key map0 map1) ks st)) k =
     (if k \<in> set ks \<and> type_clash map0 map1 k \<noteq> None then type_clash map0 map1 k
      else map_of (badTypes st) k)"
  by (induction ks arbitrary: st) (auto simp: scan_key_badTypes split: option.splits)

lemma fold_badShapes:
  "map_of (badShapes (fold (scan_key map0 map1) ks st)) k =
     (if k \<in> set ks \<and> shape_clash map0 map1 k \<noteq> None then shape_clash map0 map1 k
      else map_of (badShapes st) k)"
  by (induction ks arbitrary: st) (auto simp: scan_key_badShapes split: option.splits)


lemma scan_keys_sets:
  "goodKeys (scan_keys ks map0 map1) = {k \<in> set ks. spec_accepts map0 map1 k}"
  "missing0 (scan_keys ks map0 map1) = {k \<in> set ks. map0 k = None}"
  "missing1 (scan_keys ks map0 map1) = {k \<in> set ks. map1 k = None}"
  by (simp_all add: scan_keys_def scan_init_def fold_goodKeys fold_missing0 fold_missing1)

lemma scan_keys_badTypes:
  "map_of (badTypes (scan_keys ks map0 map1)) k =
     (if k \<in> set ks then type_clash map0 map1 k else None)"
  by (cases "type_clash map0 map1 k")
     (simp_all add: scan_keys_def scan_init_def fold_badTypes)

lemma scan_keys_badShapes:
  "map_of (badShapes (scan_keys ks map0 map1)) k =
     (if k \<in> set ks then shape_clash map0 map1 k else None)"
  by (cases "shape_clash map0 map1 k")
     (simp_all add: scan_keys_def scan_init_def fold_badShapes)

lemmas scan_keys_fields = scan_keys_sets scan_keys_badTypes scan_keys_badShapes

lemma excluded_key_cases:
  assumes "\<not> spec_accepts map0 map1 k"
  shows "map0 k = None \<or> map1 k = None \<or> type_clash map0 map1 k \<noteq> None
     \<or> shape_clash map0 map1 k \<noteq> None"
proof (cases "map0 k = None \<or> map1 k = None")
  case True
  then show ?thesis by blast
next
  case False
  then obtain v0 v1 where v: "map0 k = Some v0" "map1 k = Some v1" by auto
  with assms show ?thesis
    by (auto simp: spec_accepts_present type_clash_present shape_clash_present)
qed

lemma reports_length:
  "length ((if a then [x] else []) @ (if b then [y] else []) @ (if c then [z] else [])) \<le> 3"
  by simp

text \<open>
  C7. \<^verbatim>\<open>getKeyMatchingShapes\<close> returns exactly the keys of the key set that both maps
  have, with values of the same concrete type and, for two arrays, of the same shape.
  Every other key of the key set is recorded: in the missing set of each side that lacks
  it, in \<^verbatim>\<open>badTypes\<close> with both types, or in \<^verbatim>\<open>badShapes\<close> with both shapes. After the
  loop at most three aggregated reports are emitted, one for each non-empty kind, and
  none per key. For the keys \<open>x\<close> and \<open>y\<close>, with \<open>x\<close> of shape \<open>(3,)\<close> in both maps and
  \<open>y\<close> of shapes \<open>(2,)\<close> and \<open>(5,)\<close>, the result is \<open>{x}\<close> and \<open>y\<close> is reported as a shape
  mismatch.
\<close>

theorem getKeyMatchingShapes_accepts:
  "fst (getKeyMatchingShapes keySet map0 map1 desc0 desc1)
     = {k \<in> set keySet. spec_accepts map0 map1 k}
   \<and> (\<forall>k \<in> set keySet.
        (map0 k = None \<longrightarrow> k \<in> missing0 (scan_keys keySet map0 map1))
      \<and> (map1 k = None \<longrightarrow> k \<in> missing1 (scan_keys keySet map0 map1))
      \<and> (\<forall>v0 v1. map0 k = Some v0 \<and> map1 k = Some v1 \<and> type_of v0 \<noteq> type_of v1 \<longrightarrow>
            map_of (badTypes (scan_keys keySet map0 map1)) k = Some (type_of v0, type_of v1))
      \<and> (\<forall>a b. map0 k = Some (PArray a) \<and> map1 k = Some (PArray b) \<and> shape a \<noteq> shape b \<longrightarrow>
            map_of (badShapes (scan_keys keySet map0 map1)) k = Some (shape a, shape b))
      \<and> (\<not> spec_accepts map0 map1 k \<longrightarrow>
            k \<in> missing0 (scan_keys keySet map0 map1)
          \<or> k \<in> missing1 (scan_keys keySet map0 map1)
          \<or> k \<in> dom (map_of (badTypes (scan_keys keySet map0 map1)))
          \<or> k \<in> dom (map_of (badShapes (scan_keys keySet map0 map1)))))
   \<and> snd (getKeyMatchingShapes keySet map0 map1 desc0 desc1) =
       (let st = scan_keys keySet map0 map1 in
        (if any_key (missing0 st) \<or> any_key (missing1 st)
         then [LogMissingKeys desc0 desc1 (missing0 st) (missing1 st) None] else []) @
        (if badTypes st \<noteq> [] then [LogBadTypes desc0 desc1 (badTypes st)] else []) @
        (if badShapes st \<noteq> [] then [LogBadShapes desc0 desc1 (badShapes st)] else []))
   \<and> length (snd (getKeyMatchingShapes keySet map0 map1 desc0 desc1)) \<le> 3
   \<and> getKeyMatchingShapes [''x'', ''y'']
        [''x'' \<mapsto> PArray \<lparr>shape = [3], elems = [Fin 1, Fin 2, Fin 3]\<rparr>,
         ''y'' \<mapsto> PArray \<lparr>shape = [2], elems = [Fin 1, Fin 2]\<rparr>]
        [''x'' \<mapsto> PArray \<lparr>shape = [3], elems = [Fin 1, Fin 2, Fin 3]\<rparr>,
         ''y'' \<mapsto> PArray \<lparr>shape = [5], elems = [Fin 1, Fin 2, Fin 3, Fin 4, Fin 5]\<rparr>]
        ''first'' ''second''
       = ({''x''}, [LogBadShapes ''first'' ''second'' [(''y'', [2], [5])]])"
proof (intro conjI ballI)
  show "fst (getKeyMatchingShapes keySet map0 map1 desc0 desc1)
     = {k \<in> set keySet. spec_accepts map0 map1 k}"
    by (simp add: getKeyMatchingShapes_def Let_def scan_keys_fields)
next
  fix k assume k: "k \<in> set keySet"
  then show "map0 k = None \<longrightarrow> k \<in> missing0 (scan_keys keySet map0 map1)"
    by (simp add: scan_keys_fields)
  from k show "map1 k = None \<longrightarrow> k \<in> missing1 (scan_keys keySet map0 map1)"
    by (simp add: scan_keys_fields)
  from k show "\<forall>v0 v1. map0 k = Some v0 \<and> map1 k = Some v1 \<and> type_of v0 \<noteq> type_of v1 \<longrightarrow>
            map_of (badTypes (scan_keys keySet map0 map1)) k = Some (type_of v0, type_of v1)"
    by (simp add: scan_keys_fields type_clash_present)
  from k show "\<forall>a b. map0 k = Some (PArray a) \<and> map1 k = Some (PArray b) \<and> shape a \<noteq> shape b \<longrightarrow>
            map_of (badShapes (scan_keys keySet map0 map1)) k = Some (shape a, shape b)"
    by (simp add: scan_keys_fields shape_clash_present)
  from k excluded_key_cases [of map0 map1 k]
  show "\<not> spec_accepts map0 map1 k \<longrightarrow>
            k \<in> missing0 (scan_keys keySet map0 map1)
          \<or> k \<in> missing1 (scan_keys keySet map0 map1)
          \<or> k \<in> dom (map_of (badTypes (scan_keys keySet map0 map1)))
          \<or> k \<in> dom (map_of (badShapes (scan_keys keySet map0 map1)))"
    by (auto simp: scan_keys_fields dom_def)
next
  show "snd (getKeyMatchingShapes keySet map0 map1 desc0 desc1) =
       (let st = scan_keys keySet map0 map1 in
        (if any_key (missing0 st) \<or> any_key (missing1 st)
         then [LogMissingKeys desc0 desc1 (missing0 st) (missing1 st) None] else []) @
        (if badTypes st \<noteq> [] then [LogBadTypes desc0 desc1 (badTypes st)] else []) @
        (if badShapes st \<noteq> [] then [LogBadShapes desc0 desc1 (badShapes st)] else []))"
    by (simp add: getKeyMatchingShapes_def Let_def)
next
  show "length (snd (getKeyMatchingShapes keySet map0 map1 desc0 desc1)) \<le> 3"
    unfolding getKeyMatchingShapes_def Let_def snd_conv by (rule reports_length)
next
  show "getKeyMatchingShapes [''x'', ''y'']
        [''x'' \<mapsto> PArray \<lparr>shape = [3], elems = [Fin 1, Fin 2, Fin 3]\<rparr>,
         ''y'' \<mapsto> PArray \<lparr>shape = [2], elems = [Fin 1, Fin 2]\<rparr>]
        [''x'' \<mapsto> PArray \<lparr>shape = [3], elems = [Fin 1, Fin 2, Fin 3]\<rparr>,
         ''y'' \<mapsto> PArray \<lparr>shape = [5], elems = [Fin 1, Fin 2, Fin 3, Fin 4, Fin 5]\<rparr>]
        ''first'' ''second''
       = ({''x''}, [LogBadShapes ''first'' ''second'' [(''y'', [2], [5])]])"
    by (simp add: getKeyMatchingShapes_def scan_keys_def scan_key_def scan_init_def
        any_key_def Let_def)
qed


text \<open>
  The theorem at four keys: \<open>x\<close> agrees in both maps, \<open>y\<close> differs in shape, \<open>z\<close> is
  missing from the second map and \<open>t\<close> is an \<^verbatim>\<open>int\<close> against a string. Only \<open>x\<close> is
  accepted; each of the others is recorded in its collection.
\<close>

theorem getKeyMatchingShapes_accepts_witness:
  "(let keySet = [''x'', ''y'', ''z'', ''t''];
        map0 = [''x'' \<mapsto> array1d [Fin 1, Fin 2, Fin 3], ''y'' \<mapsto> array1d [Fin 1, Fin 2],
                ''z'' \<mapsto> PInt 1, ''t'' \<mapsto> PInt 1];
        map1 = [''x'' \<mapsto> array1d [Fin 1, Fin 2, Fin 3], ''y'' \<mapsto> array1d [Fin 1, Fin 2, Fin 3, Fin 4, Fin 5],
                ''t'' \<mapsto> PStr ''a''];
        st = scan_keys keySet map0 map1
    in map1 ''z'' = None \<and> ''z'' \<in> missing1 st
     \<and> map0 ''t'' = Some (PInt 1) \<and> map1 ''t'' = Some (PStr ''a'')
     \<and> map_of (badTypes st) ''t'' = Some (TInt, TStr)
     \<and> map0 ''y'' = Some (array1d [Fin 1, Fin 2]) \<and> map1 ''y'' = Some (array1d [Fin 1, Fin 2, Fin 3, Fin 4, Fin 5])
     \<and> map_of (badShapes st) ''y'' = Some ([2], [5])
     \<and> fst (getKeyMatchingShapes keySet map0 map1 ''first'' ''second''
              :: string set \<times> (string, unit) report list) = {''x''})"
proof -
  let ?ks = "[''x'', ''y'', ''z'', ''t'']"
  let ?m0 = "[''x'' \<mapsto> array1d [Fin 1, Fin 2, Fin 3], ''y'' \<mapsto> array1d [Fin 1, Fin 2],
              ''z'' \<mapsto> PInt 1, ''t'' \<mapsto> PInt 1]"
  let ?m1 = "[''x'' \<mapsto> array1d [Fin 1, Fin 2, Fin 3], ''y'' \<mapsto> array1d [Fin 1, Fin 2, Fin 3, Fin 4, Fin 5],
              ''t'' \<mapsto> PStr ''a'']"
  let ?st = "scan_keys ?ks ?m0 ?m1"
  let ?r = "getKeyMatchingShapes ?ks ?m0 ?m1 ''first'' ''second''
              :: string set \<times> (string, unit) report list"
  note t = getKeyMatchingShapes_accepts
      [of ?ks ?m0 ?m1 "''first''" "''second''", where ?'a = unit]
  have kz: "''z'' \<in> set ?ks" and kt: "''t'' \<in> set ?ks" and ky: "''y'' \<in> set ?ks"
    by simp_all
  have z: "?m1 ''z'' = None" by simp
  have t0: "?m0 ''t'' = Some (PInt 1)" and t1: "?m1 ''t'' = Some (PStr ''a'')"
    by simp_all
  have y0: "?m0 ''y'' = Some (array1d [Fin 1, Fin 2])"
    and y1: "?m1 ''y'' = Some (array1d [Fin 1, Fin 2, Fin 3, Fin 4, Fin 5])"
    by simp_all
  from t kz z have 1: "''z'' \<in> missing1 ?st"
    by blast
  from t kt have "\<forall>v0 v1. ?m0 ''t'' = Some v0 \<and> ?m1 ''t'' = Some v1 \<and> type_of v0 \<noteq> type_of v1
      \<longrightarrow> map_of (badTypes ?st) ''t'' = Some (type_of v0, type_of v1)"
    by blast
  with t0 t1 have 2: "map_of (badTypes ?st) ''t'' = Some (TInt, TStr)"
    by simp
  from t ky have "\<forall>a b. ?m0 ''y'' = Some (PArray a) \<and> ?m1 ''y'' = Some (PArray b)
      \<and> shape a \<noteq> shape b \<longrightarrow> map_of (badShapes ?st) ''y'' = Some (shape a, shape b)"
    by blast
  with y0 y1 have 3: "map_of (badShapes ?st) ''y'' = Some ([2], [5])"
    by simp
  from t have "fst ?r = {k \<in> set ?ks. spec_accepts ?m0 ?m1 k}"
    by (rule conjunct1)
  also have "\<dots> = {''x''}"
    by (auto simp: spec_accepts_def)
  finally have 4: "fst ?r = {''x''}" .
  from z 1 t0 t1 2 y0 y1 3 4 show ?thesis
    unfolding Let_def by blast
qed

section \<open>Properties of \<^verbatim>\<open>BaseObject.compare\<close>\<close>

subsection \<open>The validation of the tolerances\<close>

lemma py_float_small_int:
  "\<bar>i\<bar> < 2 ^ 53 \<Longrightarrow> py_float rnd (NInt i) = Inr (Fin (of_int i))"
  by (simp add: rounding_of_int)

lemma sigma_not_negative: "\<not> negative (NInt (max 0 s))"
  by simp

lemma compare_converted:
  assumes "py_float rnd upper0 = Inr upper" "py_float rnd lower0 = Inr lower"
    "py_int sigma0 = Inr s"
  shows "compare rnd m self other lower0 upper0 sigma0 v w =
     (if flt upper lower then (Inl (ValueError_upper_lower upper lower), w)
      else if flt upper (Fin 0) then (Inl (ValueError_negative ''upper'' (NFloat upper)), w)
      else if flt lower (Fin 0) then (Inl (ValueError_negative ''lower'' (NFloat lower)), w)
      else compare_after_validation m self other lower upper (max 0 s) v w)"
  using assms by (simp add: compare_def Let_def)

text \<open>
  C4, as amended. Once \<^verbatim>\<open>float(upper)\<close>, \<^verbatim>\<open>float(lower)\<close> and \<^verbatim>\<open>int(sigma)\<close> have
  converted (sigma is an \<^verbatim>\<open>int\<close> or a finite float), \<^verbatim>\<open>compare\<close> raises a \<^verbatim>\<open>ValueError\<close>
  of its validation exactly when \<open>upper < lower\<close> or when \<open>upper\<close> or \<open>lower\<close> is negative.
  For \<open>upper < lower\<close> the message shows both \<open>upper\<close> and \<open>lower\<close>; otherwise it shows the
  name and the value of the first negative one of \<open>upper\<close>, \<open>lower\<close>, and only that. The
  exception leaves before the class check, the log and \<^verbatim>\<open>_compare\<close>: the state is
  untouched. In every other case the validation raises nothing and the call goes on with
  the class check and \<^verbatim>\<open>_compare\<close>, with sigma clamped to \<open>max(0, int(sigma))\<close>: a
  negative sigma goes on as sigma 0.
\<close>

theorem compare_validation:
  assumes "py_float rnd upper0 = Inr upper" "py_float rnd lower0 = Inr lower"
    "py_int sigma0 = Inr s"
  shows
    "(flt upper lower \<longrightarrow>
        compare rnd m self other lower0 upper0 sigma0 v w
          = (Inl (ValueError_upper_lower upper lower), w)
        \<and> message_numbers (ValueError_upper_lower upper lower) = [NFloat upper, NFloat lower])
   \<and> (\<not> flt upper lower \<and> flt upper (Fin 0) \<longrightarrow>
        compare rnd m self other lower0 upper0 sigma0 v w
          = (Inl (ValueError_negative ''upper'' (NFloat upper)), w)
        \<and> message_numbers (ValueError_negative ''upper'' (NFloat upper)) = [NFloat upper])
   \<and> (\<not> flt upper lower \<and> \<not> flt upper (Fin 0) \<and> flt lower (Fin 0) \<longrightarrow>
        compare rnd m self other lower0 upper0 sigma0 v w
          = (Inl (ValueError_negative ''lower'' (NFloat lower)), w)
        \<and> message_numbers (ValueError_negative ''lower'' (NFloat lower)) = [NFloat lower])
   \<and> (\<not> flt upper lower \<and> \<not> flt upper (Fin 0) \<and> \<not> flt lower (Fin 0) \<longrightarrow>
        compare rnd m self other lower0 upper0 sigma0 v w
          = compare_after_validation m self other lower upper (max 0 s) v w)
   \<and> (s < 0 \<and> \<not> flt upper lower \<and> \<not> flt upper (Fin 0) \<and> \<not> flt lower (Fin 0) \<longrightarrow>
        compare rnd m self other lower0 upper0 sigma0 v w
          = compare_after_validation m self other lower upper 0 v w)"
  unfolding compare_converted [OF assms] by (simp add: max_def)

text \<open>
  The theorem at \<open>lower = 10, upper = 5\<close>, at \<open>lower = -5.0, upper = -2.0\<close> and at
  \<open>lower = -5.0, upper = 10\<close>, which raise, and at \<open>sigma = -1\<close> with the default
  tolerances, which goes on with sigma 0.
\<close>

theorem compare_validation_witness:
  "\<forall>rnd.
     py_float rnd (NInt 5) = Inr (Fin 5) \<and> py_float rnd (NInt 10) = Inr (Fin 10)
   \<and> py_float rnd (NInt 0) = Inr (Fin 0)
   \<and> py_float rnd (NFloat (Fin (- 5))) = Inr (Fin (- 5))
   \<and> py_float rnd (NFloat (Fin (- 2))) = Inr (Fin (- 2))
   \<and> py_int (NInt 2) = Inr 2 \<and> py_int (NInt (- 1)) = Inr (- 1)
   \<and> flt (Fin 5) (Fin 10)
   \<and> compare rnd BaseObject_compare \<lparr>obj_class = BaseObject_class\<rparr> \<lparr>obj_class = BaseObject_class\<rparr>
        (NInt 10) (NInt 5) (NInt 2) None world0
       = (Inl (ValueError_upper_lower (Fin 5) (Fin 10)), world0)
   \<and> \<not> flt (Fin (- 2)) (Fin (- 5)) \<and> flt (Fin (- 2)) (Fin 0)
   \<and> compare rnd BaseObject_compare \<lparr>obj_class = BaseObject_class\<rparr> \<lparr>obj_class = BaseObject_class\<rparr>
        (NFloat (Fin (- 5))) (NFloat (Fin (- 2))) (NInt 2) None world0
       = (Inl (ValueError_negative ''upper'' (NFloat (Fin (- 2)))), world0)
   \<and> \<not> flt (Fin 10) (Fin (- 5)) \<and> \<not> flt (Fin 10) (Fin 0) \<and> flt (Fin (- 5)) (Fin 0)
   \<and> compare rnd BaseObject_compare \<lparr>obj_class = BaseObject_class\<rparr> \<lparr>obj_class = BaseObject_class\<rparr>
        (NFloat (Fin (- 5))) (NInt 10) (NInt 2) None world0
       = (Inl (ValueError_negative ''lower'' (NFloat (Fin (- 5)))), world0)
   \<and> (- 1 :: int) < 0 \<and> \<not> flt (Fin 10) (Fin 0) \<and> \<not> flt (Fin 0) (Fin 0)
   \<and> compare rnd BaseObject_compare \<lparr>obj_class = BaseObject_class\<rparr> \<lparr>obj_class = BaseObject_class\<rparr>
        (NInt 0) (NInt 10) (NInt (- 1)) None world0
       = compare_after_validation BaseObject_compare \<lparr>obj_class = BaseObject_class\<rparr>
           \<lparr>obj_class = BaseObject_class\<rparr> (Fin 0) (Fin 10) 0 None world0"
proof
  fix rnd
  let ?o = "\<lparr>obj_class = BaseObject_class\<rparr>"
  have f5: "py_float rnd (NInt 5) = Inr (Fin 5)"
    and f10: "py_float rnd (NInt 10) = Inr (Fin 10)"
    and f0: "py_float rnd (NInt 0) = Inr (Fin 0)"
    using py_float_small_int [of 5 rnd] py_float_small_int [of 10 rnd]
      py_float_small_int [of 0 rnd] by simp_all
  have fm5: "py_float rnd (NFloat (Fin (- 5))) = Inr (Fin (- 5))"
    and fm2: "py_float rnd (NFloat (Fin (- 2))) = Inr (Fin (- 2))"
    by simp_all
  have i2: "py_int (NInt 2) = Inr 2" and im1: "py_int (NInt (- 1)) = Inr (- 1)"
    by simp_all
  have a: "flt (Fin 5) (Fin 10)" by simp
  have b: "\<not> flt (Fin (- 2)) (Fin (- 5)) \<and> flt (Fin (- 2)) (Fin 0)" by simp
  have c: "\<not> flt (Fin 10) (Fin (- 5)) \<and> \<not> flt (Fin 10) (Fin 0) \<and> flt (Fin (- 5)) (Fin 0)"
    by simp
  have d: "(- 1 :: int) < 0 \<and> \<not> flt (Fin 10) (Fin 0) \<and> \<not> flt (Fin 0) (Fin 0)" by simp
  from a compare_validation [OF f5 f10 i2, of BaseObject_compare ?o ?o None world0]
  have 1: "compare rnd BaseObject_compare ?o ?o (NInt 10) (NInt 5) (NInt 2) None world0
       = (Inl (ValueError_upper_lower (Fin 5) (Fin 10)), world0)"
    by blast
  from b compare_validation [OF fm2 fm5 i2, of BaseObject_compare ?o ?o None world0]
  have 2: "compare rnd BaseObject_compare ?o ?o (NFloat (Fin (- 5))) (NFloat (Fin (- 2)))
         (NInt 2) None world0
       = (Inl (ValueError_negative ''upper'' (NFloat (Fin (- 2)))), world0)"
    by blast
  from c compare_validation [OF f10 fm5 i2, of BaseObject_compare ?o ?o None world0]
  have 3: "compare rnd BaseObject_compare ?o ?o (NFloat (Fin (- 5))) (NInt 10) (NInt 2)
         None world0
       = (Inl (ValueError_negative ''lower'' (NFloat (Fin (- 5)))), world0)"
    by blast
  have e: "\<not> flt (Fin 10) (Fin 0) \<and> \<not> flt (Fin 10) (Fin 0) \<and> \<not> flt (Fin 0) (Fin 0)" by simp
  from d e compare_validation [OF f10 f0 im1, of BaseObject_compare ?o ?o None world0]
  have 4: "compare rnd BaseObject_compare ?o ?o (NInt 0) (NInt 10) (NInt (- 1)) None world0
       = compare_after_validation BaseObject_compare ?o ?o (Fin 0) (Fin 10) 0 None world0"
    by blast
  from f5 f10 f0 fm5 fm2 i2 im1 a b c d 1 2 3 4
  show "py_float rnd (NInt 5) = Inr (Fin 5) \<and> py_float rnd (NInt 10) = Inr (Fin 10)
   \<and> py_float rnd (NInt 0) = Inr (Fin 0)
   \<and> py_float rnd (NFloat (Fin (- 5))) = Inr (Fin (- 5))
   \<and> py_float rnd (NFloat (Fin (- 2))) = Inr (Fin (- 2))
   \<and> py_int (NInt 2) = Inr 2 \<and> py_int (NInt (- 1)) = Inr (- 1)
   \<and> flt (Fin 5) (Fin 10)
   \<and> compare rnd BaseObject_compare ?o ?o (NInt 10) (NInt 5) (NInt 2) None world0
       = (Inl (ValueError_upper_lower (Fin 5) (Fin 10)), world0)
   \<and> \<not> flt (Fin (- 2)) (Fin (- 5)) \<and> flt (Fin (- 2)) (Fin 0)
   \<and> compare rnd BaseObject_compare ?o ?o (NFloat (Fin (- 5))) (NFloat (Fin (- 2)))
        (NInt 2) None world0
       = (Inl (ValueError_negative ''upper'' (NFloat (Fin (- 2)))), world0)
   \<and> \<not> flt (Fin 10) (Fin (- 5)) \<and> \<not> flt (Fin 10) (Fin 0) \<and> flt (Fin (- 5)) (Fin 0)
   \<and> compare rnd BaseObject_compare ?o ?o (NFloat (Fin (- 5))) (NInt 10) (NInt 2) None world0
       = (Inl (ValueError_negative ''lower'' (NFloat (Fin (- 5)))), world0)
   \<and> (- 1 :: int) < 0 \<and> \<not> flt (Fin 10) (Fin 0) \<and> \<not> flt (Fin 0) (Fin 0)
   \<and> compare rnd BaseObject_compare ?o ?o (NInt 0) (NInt 10) (NInt (- 1)) None world0
       = compare_after_validation BaseObject_compare ?o ?o (Fin 0) (Fin 10) 0 None world0"
    by blast
qed

text \<open>
  C4 as stated puts both offending numbers in the message, and lets no sigma raise. With
  \<open>lower = -5.0\<close> and \<open>upper = -2.0\<close> both are negative, the loop raises at \<open>upper\<close>, and
  the message shows \<open>-2.0\<close> without \<open>-5.0\<close>. With valid tolerances, \<^verbatim>\<open>int(sigma)\<close> raises a
  \<^verbatim>\<open>ValueError\<close> for sigma NaN, and an \<^verbatim>\<open>OverflowError\<close> for the negative sigma
  \<open>-inf\<close>.
\<close>

theorem compare_validation_counterexample:
  "\<forall>rnd.
     negative (NFloat (Fin (- 5))) \<and> negative (NFloat (Fin (- 2)))
   \<and> compare rnd BaseObject_compare \<lparr>obj_class = BaseObject_class\<rparr> \<lparr>obj_class = BaseObject_class\<rparr>
        (NFloat (Fin (- 5))) (NFloat (Fin (- 2))) (NInt 2) None world0
       = (Inl (ValueError_negative ''upper'' (NFloat (Fin (- 2)))), world0)
   \<and> NFloat (Fin (- 5)) \<notin> set (message_numbers (ValueError_negative ''upper'' (NFloat (Fin (- 2)))))
   \<and> compare rnd BaseObject_compare \<lparr>obj_class = BaseObject_class\<rparr> \<lparr>obj_class = BaseObject_class\<rparr>
        (NFloat (Fin 0)) (NFloat (Fin 10)) (NFloat NaN) None world0
       = (Inl ValueError_nan_to_int, world0)
   \<and> negative (NFloat NInf)
   \<and> compare rnd BaseObject_compare \<lparr>obj_class = BaseObject_class\<rparr> \<lparr>obj_class = BaseObject_class\<rparr>
        (NFloat (Fin 0)) (NFloat (Fin 10)) (NFloat NInf) None world0
       = (Inl OverflowError_inf_to_int, world0)"
  by (simp add: compare_def)


subsection \<open>The class check\<close>

lemma checkCompareObj_eq:
  "checkCompareObj self other =
     (if issubclass (obj_class other) (obj_class self) then Inr ()
      else Inl (TypeError_compare (class_name (obj_class other)) (class_name (obj_class self))))"
  by (simp add: checkCompareObj_def isinstance_def)

lemma after_validation_refused:
  "\<not> issubclass (obj_class other) (obj_class self) \<Longrightarrow>
   compare_after_validation m self other lower upper sigma v w =
     (Inl (TypeError_compare (class_name (obj_class other)) (class_name (obj_class self))), w)"
  by (simp add: compare_after_validation_def checkCompareObj_eq)

lemma after_validation_accepted:
  assumes "issubclass (obj_class other) (obj_class self)"
  shows "compare_after_validation m self other lower upper sigma v w =
     (case m self other lower upper sigma
             (compareLogPreMsg self other lower upper sigma
                (case v of None \<Rightarrow> w | Some x \<Rightarrow> w\<lparr>rc_verbosity := x\<rparr>)) of
        (Inl e, w3) \<Rightarrow> (Inl e, w3)
      | (Inr areSimilar, w3) \<Rightarrow>
          (Inr areSimilar,
           (case v of None \<Rightarrow> w3 | Some x \<Rightarrow> w3\<lparr>rc_verbosity := rc_verbosity w\<rparr>)))"
  using assms
  by (cases v)
     (simp_all add: compare_after_validation_def checkCompareObj_eq Let_def
        split: sum.splits prod.splits)

lemma after_validation_result:
  assumes "issubclass (obj_class other) (obj_class self)"
  shows "fst (compare_after_validation m self other lower upper sigma v w) =
     fst (m self other lower upper sigma
            (compareLogPreMsg self other lower upper sigma
               (case v of None \<Rightarrow> w | Some x \<Rightarrow> w\<lparr>rc_verbosity := x\<rparr>)))"
  unfolding after_validation_accepted [OF assms]
  by (simp split: sum.splits prod.splits)

text \<open>
  C8, as amended. \<^verbatim>\<open>_checkCompareObj\<close> raises the \<^verbatim>\<open>TypeError\<close> that names the class of
  \<open>other\<close> and the class of \<open>self\<close> exactly when the class of \<open>other\<close> is neither the class
  of \<open>self\<close> nor one of its subclasses. \<^verbatim>\<open>compare\<close> raises it exactly then, provided the
  validation of the tolerances, which comes first, has passed: it leaves with that
  \<^verbatim>\<open>TypeError\<close> before anything is logged or compared, and where the check passes the
  outcome of \<^verbatim>\<open>compare\<close> is the outcome of \<^verbatim>\<open>_compare\<close>. The check has a direction: with
  \<open>self\<close> of a base class and \<open>other\<close> of a proper subclass it passes, the other way
  round it raises.
\<close>

theorem checkCompareObj_one_directional:
  assumes "py_float rnd upper0 = Inr upper" "py_float rnd lower0 = Inr lower"
    "py_int sigma0 = Inr s"
  shows
    "checkCompareObj self other =
       (if class_id (obj_class other) = class_id (obj_class self)
           \<or> class_id (obj_class self) \<in> set (superclasses (obj_class other))
        then Inr ()
        else Inl (TypeError_compare (class_name (obj_class other)) (class_name (obj_class self))))
   \<and> (\<not> flt upper lower \<and> \<not> flt upper (Fin 0) \<and> \<not> flt lower (Fin 0) \<longrightarrow>
        (if class_id (obj_class other) = class_id (obj_class self)
            \<or> class_id (obj_class self) \<in> set (superclasses (obj_class other))
         then fst (compare rnd m self other lower0 upper0 sigma0 v w)
              = fst (m self other lower upper (max 0 s)
                      (compareLogPreMsg self other lower upper (max 0 s)
                         (case v of None \<Rightarrow> w | Some x \<Rightarrow> w\<lparr>rc_verbosity := x\<rparr>)))
         else compare rnd m self other lower0 upper0 sigma0 v w =
           (Inl (TypeError_compare (class_name (obj_class other)) (class_name (obj_class self))),
            w)))
   \<and> (class_id (obj_class self) \<in> set (superclasses (obj_class other))
        \<and> class_id (obj_class other) \<noteq> class_id (obj_class self)
        \<and> class_id (obj_class other) \<notin> set (superclasses (obj_class self)) \<longrightarrow>
        checkCompareObj self other = Inr ()
        \<and> checkCompareObj other self =
            Inl (TypeError_compare (class_name (obj_class self)) (class_name (obj_class other))))"
proof (intro conjI impI)
  show "checkCompareObj self other =
     (if class_id (obj_class other) = class_id (obj_class self)
         \<or> class_id (obj_class self) \<in> set (superclasses (obj_class other))
      then Inr ()
      else Inl (TypeError_compare (class_name (obj_class other)) (class_name (obj_class self))))"
    by (simp add: checkCompareObj_eq issubclass_def)
next
  assume t: "\<not> flt upper lower \<and> \<not> flt upper (Fin 0) \<and> \<not> flt lower (Fin 0)"
  then have c: "compare rnd m self other lower0 upper0 sigma0 v w
      = compare_after_validation m self other lower upper (max 0 s) v w"
    by (simp add: compare_converted [OF assms])
  show "if class_id (obj_class other) = class_id (obj_class self)
            \<or> class_id (obj_class self) \<in> set (superclasses (obj_class other))
         then fst (compare rnd m self other lower0 upper0 sigma0 v w)
              = fst (m self other lower upper (max 0 s)
                      (compareLogPreMsg self other lower upper (max 0 s)
                         (case v of None \<Rightarrow> w | Some x \<Rightarrow> w\<lparr>rc_verbosity := x\<rparr>)))
         else compare rnd m self other lower0 upper0 sigma0 v w =
           (Inl (TypeError_compare (class_name (obj_class other)) (class_name (obj_class self))),
            w)"
  proof (cases "issubclass (obj_class other) (obj_class self)")
    case True
    from after_validation_result [OF True] True show ?thesis
      unfolding c by (simp add: issubclass_def)
  next
    case False
    from after_validation_refused [OF False] False show ?thesis
      unfolding c by (simp add: issubclass_def)
  qed
next
  assume "class_id (obj_class self) \<in> set (superclasses (obj_class other))
        \<and> class_id (obj_class other) \<noteq> class_id (obj_class self)
        \<and> class_id (obj_class other) \<notin> set (superclasses (obj_class self))"
  then show "checkCompareObj self other = Inr ()"
    and "checkCompareObj other self =
            Inl (TypeError_compare (class_name (obj_class self)) (class_name (obj_class other)))"
    by (auto simp: checkCompareObj_eq issubclass_def)
qed

text \<open>
  The theorem at \<^verbatim>\<open>BaseObject\<close> and its subclass \<^verbatim>\<open>NamedObject\<close>, with the default
  tolerances: a base object accepts a named one, a named object refuses a base one, and
  so does its \<^verbatim>\<open>compare\<close>.
\<close>

theorem checkCompareObj_one_directional_witness:
  "\<forall>rnd.
     py_float rnd (NInt 10) = Inr (Fin 10) \<and> py_float rnd (NInt 0) = Inr (Fin 0)
   \<and> py_int (NInt 2) = Inr 2
   \<and> class_id BaseObject_class \<in> set (superclasses NamedObject_class)
   \<and> class_id NamedObject_class \<noteq> class_id BaseObject_class
   \<and> class_id NamedObject_class \<notin> set (superclasses BaseObject_class)
   \<and> checkCompareObj \<lparr>obj_class = BaseObject_class\<rparr> \<lparr>obj_class = NamedObject_class\<rparr> = Inr ()
   \<and> checkCompareObj \<lparr>obj_class = NamedObject_class\<rparr> \<lparr>obj_class = BaseObject_class\<rparr>
       = Inl (TypeError_compare ''BaseObject'' ''NamedObject'')
   \<and> \<not> flt (Fin 10) (Fin 0) \<and> \<not> flt (Fin 0) (Fin 0)
   \<and> compare rnd BaseObject_compare \<lparr>obj_class = NamedObject_class\<rparr> \<lparr>obj_class = BaseObject_class\<rparr>
        (NInt 0) (NInt 10) (NInt 2) None world0
       = (Inl (TypeError_compare ''BaseObject'' ''NamedObject''), world0)
   \<and> fst (compare rnd BaseObject_compare \<lparr>obj_class = BaseObject_class\<rparr>
        \<lparr>obj_class = NamedObject_class\<rparr> (NInt 0) (NInt 10) (NInt 2) None world0)
       = Inl NotImplementedError"
proof
  fix rnd
  let ?b = "\<lparr>obj_class = BaseObject_class\<rparr>" and ?n = "\<lparr>obj_class = NamedObject_class\<rparr>"
  have f10: "py_float rnd (NInt 10) = Inr (Fin 10)"
    and f0: "py_float rnd (NInt 0) = Inr (Fin 0)"
    using py_float_small_int [of 10 rnd] py_float_small_int [of 0 rnd] by simp_all
  have i2: "py_int (NInt 2) = Inr 2" by simp
  have h: "class_id (obj_class ?b) \<in> set (superclasses (obj_class ?n))
        \<and> class_id (obj_class ?n) \<noteq> class_id (obj_class ?b)
        \<and> class_id (obj_class ?n) \<notin> set (superclasses (obj_class ?b))"
    by (simp add: BaseObject_class_def NamedObject_class_def)
  have t: "\<not> flt (Fin 10) (Fin 0) \<and> \<not> flt (Fin 10) (Fin 0) \<and> \<not> flt (Fin 0) (Fin 0)" by simp
  note bn = checkCompareObj_one_directional
      [OF f10 f0 i2, of ?b ?n BaseObject_compare None world0]
  note nb = checkCompareObj_one_directional
      [OF f10 f0 i2, of ?n ?b BaseObject_compare None world0]
  from h bn
  have 1: "checkCompareObj ?b ?n = Inr ()
        \<and> checkCompareObj ?n ?b =
            Inl (TypeError_compare (class_name (obj_class ?b)) (class_name (obj_class ?n)))"
    by blast
  have nsub: "\<not> (class_id (obj_class ?b) = class_id (obj_class ?n)
            \<or> class_id (obj_class ?n) \<in> set (superclasses (obj_class ?b)))"
    by (simp add: BaseObject_class_def NamedObject_class_def)
  from t nb
  have "if class_id (obj_class ?b) = class_id (obj_class ?n)
            \<or> class_id (obj_class ?n) \<in> set (superclasses (obj_class ?b))
         then fst (compare rnd BaseObject_compare ?n ?b (NInt 0) (NInt 10) (NInt 2) None world0)
              = fst (BaseObject_compare ?n ?b (Fin 0) (Fin 10) (max 0 2)
                      (compareLogPreMsg ?n ?b (Fin 0) (Fin 10) (max 0 2)
                         (case None of None \<Rightarrow> world0 | Some x \<Rightarrow> world0\<lparr>rc_verbosity := x\<rparr>)))
         else compare rnd BaseObject_compare ?n ?b (NInt 0) (NInt 10) (NInt 2) None world0 =
           (Inl (TypeError_compare (class_name (obj_class ?b)) (class_name (obj_class ?n))),
            world0)"
    by blast
  with nsub have 2: "compare rnd BaseObject_compare ?n ?b (NInt 0) (NInt 10) (NInt 2) None world0 =
           (Inl (TypeError_compare (class_name (obj_class ?b)) (class_name (obj_class ?n))),
            world0)"
    by presburger
  have sub: "class_id (obj_class ?n) = class_id (obj_class ?b)
            \<or> class_id (obj_class ?b) \<in> set (superclasses (obj_class ?n))"
    by (simp add: BaseObject_class_def NamedObject_class_def)
  from t bn
  have "if class_id (obj_class ?n) = class_id (obj_class ?b)
            \<or> class_id (obj_class ?b) \<in> set (superclasses (obj_class ?n))
         then fst (compare rnd BaseObject_compare ?b ?n (NInt 0) (NInt 10) (NInt 2) None world0)
              = fst (BaseObject_compare ?b ?n (Fin 0) (Fin 10) (max 0 2)
                      (compareLogPreMsg ?b ?n (Fin 0) (Fin 10) (max 0 2)
                         (case None of None \<Rightarrow> world0 | Some x \<Rightarrow> world0\<lparr>rc_verbosity := x\<rparr>)))
         else compare rnd BaseObject_compare ?b ?n (NInt 0) (NInt 10) (NInt 2) None world0 =
           (Inl (TypeError_compare (class_name (obj_class ?n)) (class_name (obj_class ?b))),
            world0)"
    by blast
  with sub have "fst (compare rnd BaseObject_compare ?b ?n (NInt 0) (NInt 10) (NInt 2) None world0)
              = fst (BaseObject_compare ?b ?n (Fin 0) (Fin 10) (max 0 2)
                      (compareLogPreMsg ?b ?n (Fin 0) (Fin 10) (max 0 2)
                         (case None of None \<Rightarrow> world0 | Some x \<Rightarrow> world0\<lparr>rc_verbosity := x\<rparr>)))"
    by presburger
  then have 3: "fst (compare rnd BaseObject_compare ?b ?n (NInt 0) (NInt 10) (NInt 2) None world0)
       = Inl NotImplementedError"
    by (simp add: BaseObject_compare_def)
  from f10 f0 i2 h t 1 2 3
  show "py_float rnd (NInt 10) = Inr (Fin 10) \<and> py_float rnd (NInt 0) = Inr (Fin 0)
   \<and> py_int (NInt 2) = Inr 2
   \<and> class_id BaseObject_class \<in> set (superclasses NamedObject_class)
   \<and> class_id NamedObject_class \<noteq> class_id BaseObject_class
   \<and> class_id NamedObject_class \<notin> set (superclasses BaseObject_class)
   \<and> checkCompareObj ?b ?n = Inr ()
   \<and> checkCompareObj ?n ?b = Inl (TypeError_compare ''BaseObject'' ''NamedObject'')
   \<and> \<not> flt (Fin 10) (Fin 0) \<and> \<not> flt (Fin 0) (Fin 0)
   \<and> compare rnd BaseObject_compare ?n ?b (NInt 0) (NInt 10) (NInt 2) None world0
       = (Inl (TypeError_compare ''BaseObject'' ''NamedObject''), world0)
   \<and> fst (compare rnd BaseObject_compare ?b ?n (NInt 0) (NInt 10) (NInt 2) None world0)
       = Inl NotImplementedError"
    by (simp add: BaseObject_class_def NamedObject_class_def)
qed

text \<open>
  C8 as stated has no condition on the tolerances. With \<open>lower = 10\<close> and \<open>upper = 5\<close>, a
  \<^verbatim>\<open>NamedObject\<close> compared against a \<^verbatim>\<open>BaseObject\<close>, which is no instance of its class,
  raises the \<^verbatim>\<open>ValueError\<close> of the validation and no \<^verbatim>\<open>TypeError\<close>.
\<close>

theorem checkCompareObj_one_directional_counterexample:
  "\<forall>rnd.
     \<not> issubclass BaseObject_class NamedObject_class
   \<and> \<not> isinstance \<lparr>obj_class = BaseObject_class\<rparr> NamedObject_class
   \<and> compare rnd BaseObject_compare \<lparr>obj_class = NamedObject_class\<rparr> \<lparr>obj_class = BaseObject_class\<rparr>
        (NInt 10) (NInt 5) (NInt 2) None world0
       = (Inl (ValueError_upper_lower (Fin 5) (Fin 10)), world0)"
  by (simp add: compare_def rounding_numeral isinstance_def issubclass_def
      BaseObject_class_def NamedObject_class_def)

subsection \<open>The verbosity override\<close>

text \<open>
  The override is undone where \<^verbatim>\<open>_compare\<close> returns, and without a verbosity argument
  \<^verbatim>\<open>compare\<close> itself leaves \<^verbatim>\<open>rc\<close> alone.
\<close>

lemma after_validation_restores_on_return:
  assumes "compare_after_validation m self other lower upper sigma (Some x) w = (Inr ok, w')"
  shows "rc_verbosity w' = rc_verbosity w"
proof (cases "issubclass (obj_class other) (obj_class self)")
  case True
  from assms show ?thesis
    unfolding after_validation_accepted [OF True]
    by (auto split: sum.splits prod.splits)
next
  case False
  from assms after_validation_refused [OF False, of m lower upper sigma "Some x" w]
  show ?thesis by simp
qed

lemma after_validation_None_untouched:
  assumes "\<And>s ot l u sg x. rc_verbosity (snd (m s ot l u sg x)) = rc_verbosity x"
  shows "rc_verbosity (snd (compare_after_validation m self other lower upper sigma None w))
     = rc_verbosity w"
proof (cases "issubclass (obj_class other) (obj_class self)")
  case True
  let ?w2 = "compareLogPreMsg self other lower upper sigma w"
  have "rc_verbosity (snd (m self other lower upper sigma ?w2)) = rc_verbosity w"
    by (simp add: assms compareLogPreMsg_def Let_def)
  then show ?thesis
    unfolding after_validation_accepted [OF True]
    by (auto split: sum.splits prod.splits)
next
  case False
  then show ?thesis
    by (simp add: after_validation_refused)
qed

text \<open>
  C3 asks for the previous verbosity to be back after the call whatever the outcome,
  also when \<^verbatim>\<open>_compare\<close> raises. The code restores it after \<^verbatim>\<open>_compare\<close> has returned
  and has no handler around the call: on a \<^verbatim>\<open>BaseObject\<close>, whose \<^verbatim>\<open>_compare\<close> raises
  \<^verbatim>\<open>NotImplementedError\<close>, a call with verbosity \<^verbatim>\<open>'debug'\<close> in a state where it was
  \<^verbatim>\<open>'warning'\<close> ends with the exception and with the verbosity still \<^verbatim>\<open>'debug'\<close>.
\<close>

theorem compare_verbosity_left_overridden:
  "rc_verbosity world0 = ''warning''
   \<and> compare rnd BaseObject_compare \<lparr>obj_class = BaseObject_class\<rparr> \<lparr>obj_class = BaseObject_class\<rparr>
        (NInt 0) (NInt 10) (NInt 2) (Some ''debug'') world0
      = (Inl NotImplementedError,
         \<lparr>rc_verbosity = ''debug'',
          logged = [Info_compare \<lparr>obj_class = BaseObject_class\<rparr> \<lparr>obj_class = BaseObject_class\<rparr>
                      (Fin 0) (Fin 10) 2 (Percent 95)]\<rparr>)"
  by (simp add: compare_def compare_after_validation_def world0_def BaseObject_compare_def
      checkCompareObj_def isinstance_def issubclass_def compareLogPreMsg_def rounding_numeral)

end
